theory Spec2Isabelle
  imports Main
begin

section \<open>Python values used by the pipeline\<close>

text \<open>
  A Python \<open>str\<close> is modelled as a \<open>string\<close>: a list of characters, each one a code
  point below 256. Exceptions are values: a class and the text that \<open>str(e)\<close> gives.
  Only subclasses of \<open>Exception\<close> are modelled (what \<open>except Exception\<close> catches).
  Calls of \<open>print\<close> are left out.
\<close>

datatype exn_class =
    FileNotFoundError | RuntimeError | AttributeError | UnboundLocalError
  | ValueError | IndexError | CalledProcessError | OtherException

datatype exn = Exn exn_class string

fun exn_class_of :: "exn \<Rightarrow> exn_class" where
  "exn_class_of (Exn k m) = k"

fun exn_str :: "exn \<Rightarrow> string" where
  "exn_str (Exn k m) = m"

text \<open>Sequencing of computations that may raise.\<close>

fun try_bind :: "exn + 'a \<Rightarrow> ('a \<Rightarrow> exn + 'b) \<Rightarrow> exn + 'b" where
  "try_bind (Inl e) f = Inl e"
| "try_bind (Inr x) f = f x"

text \<open>
  \<open>str.isspace\<close> on the code points below 256: tab, line feed, vertical tab, form feed,
  carriage return, the four separators 0x1C to 0x1F, space, NEL and the no-break space.
\<close>

definition isspace :: "char \<Rightarrow> bool" where
  "isspace c = (c \<in> set [CHR 0x09, CHR 0x0A, CHR 0x0B, CHR 0x0C, CHR 0x0D,
                          CHR 0x1C, CHR 0x1D, CHR 0x1E, CHR 0x1F, CHR 0x20,
                          CHR 0x85, CHR 0xA0])"

text \<open>\<open>s.strip()\<close> and \<open>s.lstrip(chars)\<close>.\<close>

definition py_strip :: "string \<Rightarrow> string" where
  "py_strip s = rev (dropWhile isspace (rev (dropWhile isspace s)))"

definition py_lstrip :: "string \<Rightarrow> string \<Rightarrow> string" where
  "py_lstrip chars s = dropWhile (\<lambda>c. c \<in> set chars) s"

text \<open>\<open>s.lower()\<close> on the code points below 256: A to Z and the accented capitals.\<close>

definition lower_char :: "char \<Rightarrow> char" where
  "lower_char c =
     (let n = (of_char c :: nat)
      in if (65 \<le> n \<and> n \<le> 90) \<or> (192 \<le> n \<and> n \<le> 214) \<or> (216 \<le> n \<and> n \<le> 222)
         then char_of (n + 32) else c)"

definition py_lower :: "string \<Rightarrow> string" where
  "py_lower s = map lower_char s"

text \<open>\<open>s.startswith(p)\<close>, \<open>sub in s\<close> and \<open>s.split(sep)\<close> for a one-character separator.\<close>

definition startswith :: "string \<Rightarrow> string \<Rightarrow> bool" where
  "startswith s p = (take (length p) s = p)"

fun str_contains :: "string \<Rightarrow> string \<Rightarrow> bool" where
  "str_contains [] sub = (sub = [])"
| "str_contains (c # cs) sub = (startswith (c # cs) sub \<or> str_contains cs sub)"

fun py_split :: "char \<Rightarrow> string \<Rightarrow> string list" where
  "py_split sep [] = [[]]"
| "py_split sep (c # cs) =
     (if c = sep then [] # py_split sep cs
      else (case py_split sep cs of
              [] \<Rightarrow> [[c]]
            | w # ws \<Rightarrow> (c # w) # ws))"

text \<open>\<open>range(0, stop, step)\<close> for a positive step, and the slice \<open>xs[i:j]\<close> for \<open>0 \<le> i \<le> j\<close>.\<close>

definition py_range_step :: "nat \<Rightarrow> nat \<Rightarrow> nat list" where
  "py_range_step stop step = map (\<lambda>k. k * step) [0..<(stop + step - 1) div step]"

definition slice :: "'a list \<Rightarrow> nat \<Rightarrow> nat \<Rightarrow> 'a list" where
  "slice xs i j = take (j - i) (drop i xs)"

text \<open>
  A \<open>pathlib.Path\<close>, by the attributes the code reads: \<open>str(p)\<close>, \<open>p.name\<close>,
  \<open>p.stem\<close> and \<open>p.suffix\<close>. \<open>d / n\<close> joins a directory and a file name.
\<close>

record path =
  path_str :: string
  path_name :: string
  path_stem :: string
  path_suffix :: string

definition joinpath :: "string \<Rightarrow> string \<Rightarrow> string" where
  "joinpath d n = d @ ''/'' @ n"

section \<open>Call log and outside world\<close>

text \<open>
  Everything outside the repository (the speech model, the language model, the Notion
  client, ffmpeg, the file system) is a function of an abstract world \<open>'w\<close> that returns
  its result and the world after the call. The model keeps a log of the calls it makes,
  so that "not invoked" is a statement about the log.
\<close>

record publish_args =
  arg_title :: string
  arg_date_iso :: string
  arg_summary :: string
  arg_action_items :: "string list"
  arg_transcript :: string
  arg_source_filename :: string

datatype rich_text = Text string "string option"

datatype block =
    Heading int "rich_text list" string
  | Paragraph "rich_text list" "string option"
  | ToDo "rich_text list" bool string
  | BulletedListItem "rich_text list" string
  | Toggle "rich_text list" string "block list"

record page_properties =
  prop_Name :: string
  prop_Date :: string
  prop_Source_File :: string

record page_request =
  parent_database_id :: string
  properties :: page_properties
  children :: "block list"

datatype event =
    TranscribeCall string
  | AnalyzeCall string string
  | PublishCall publish_args
  | GenerateContentCall string
  | PagesCreateCall page_request
  | FfmpegCall string string
  | WhisperModelCall string
  | WriteTextCall string string
  | MoveCall string string

record 'w state =
  calls :: "event list"
  world :: 'w

definition invoke :: "event \<Rightarrow> ('w \<Rightarrow> 'a \<times> 'w) \<Rightarrow> 'w state \<Rightarrow> 'a \<times> 'w state" where
  "invoke ev f s = (case f (world s) of (r, w') \<Rightarrow> (r, \<lparr>calls = calls s @ [ev], world = w'\<rparr>))"

section \<open>summarizer\_service.py\<close>

text \<open>
  The response object of the SDK, by what the code reads of it: \<open>response.text\<close>
  (\<open>Inl\<close> when reading the attribute raises, AttributeError when it is absent) and,
  for each candidate, the parts of its content, each with its \<open>text\<close> when it has one.
\<close>

record response =
  resp_text :: "exn + string"
  resp_candidates :: "string option list list"

type_synonym 'w gemini_model = "string \<Rightarrow> 'w \<Rightarrow> (exn + response) \<times> 'w"

text \<open>
  An analysis result is a dict; a key may be absent (the orchestrator reads it with
  \<open>.get\<close> and a default), so each key holds an option.
\<close>

record analysis =
  summary :: "string option"
  action_items :: "string list option"
  original_filename :: "string option"

definition candidates_text :: "response \<Rightarrow> string" where
  "candidates_text response =
     (case resp_candidates response of
        [] \<Rightarrow> []
      | parts # rest \<Rightarrow> if parts \<noteq> [] then concat (List.map_filter (\<lambda>part. part) parts) else [])"

text \<open>
  \<open>SummarizerService._generate_content_with_gemini\<close>. When \<open>generate_content\<close> itself
  raises AttributeError, the handler's \<open>print\<close> reads the unbound \<open>response\<close> and
  raises UnboundLocalError, which leaves the function.
\<close>

definition generate_content_with_gemini ::
    "'w gemini_model \<Rightarrow> string \<Rightarrow> 'w state \<Rightarrow> (exn + string) \<times> 'w state" where
  "generate_content_with_gemini model prompt s =
     (case invoke (GenerateContentCall prompt) (model prompt) s of
        (Inl e, s') \<Rightarrow>
          (if exn_class_of e = AttributeError
           then (Inl (Exn UnboundLocalError
                  ''cannot access local variable 'response' where it is not associated with a value''), s')
           else (Inl (Exn RuntimeError (''Gemini API call failed: '' @ exn_str e)), s'))
      | (Inr response, s') \<Rightarrow>
          (case resp_text response of
             Inl e \<Rightarrow>
               (if exn_class_of e = AttributeError then (Inr (candidates_text response), s')
                else (Inl (Exn RuntimeError (''Gemini API call failed: '' @ exn_str e)), s'))
           | Inr t \<Rightarrow>
               (if t \<noteq> [] then (Inr t, s') else (Inr (candidates_text response), s'))))"

definition prompt_text :: "string list \<Rightarrow> string" where
  "prompt_text ls =
     [CHR 0x0A] @ concat (map (\<lambda>l. replicate 8 (CHR 0x20) @ l @ [CHR 0x0A]) ls) @ replicate 8 (CHR 0x20)"

definition summary_prompt :: "string \<Rightarrow> string \<Rightarrow> string" where
  "summary_prompt filename transcript = prompt_text
     [''Original Filename: '' @ filename,
      ''Transcript:'',
      ''---'',
      transcript,
      ''---'',
      ''Based on the transcript above, provide a concise summary of the main topics and discussion points.'',
      ''The summary should be a single, coherent paragraph. Do not include any preamble like ''
        @ [CHR 0x22] @ ''Here is the summary:'' @ [CHR 0x22] @ ''.'',
      ''Focus on the key information conveyed.'',
      ''Summary:'']"

definition action_items_prompt :: "string \<Rightarrow> string \<Rightarrow> string" where
  "action_items_prompt filename transcript = prompt_text
     [''Original Filename: '' @ filename,
      ''Transcript:'',
      ''---'',
      transcript,
      ''---'',
      ''Based on the transcript above, identify any specific action items, tasks, or follow-ups mentioned.'',
      ''List them as a bulleted list. Each action item should be a clear, concise statement.'',
      ''If no action items are found, output '' @ [CHR 0x22] @ ''No action items identified.'' @ [CHR 0x22],
      ''Do not include any preamble like '' @ [CHR 0x22] @ ''Here are the action items:'' @ [CHR 0x22] @ ''.'',
      ''Action Items:'',
      ''-'']"

text \<open>
  The post-parsing of the raw action-item text inside \<open>analyze_transcript\<close>
  (the \<open>if\<close>/\<open>elif\<close>/\<open>else\<close> on \<open>raw_action_items_text\<close>).
\<close>

definition parse_action_items :: "string \<Rightarrow> string list" where
  "parse_action_items raw_action_items_text =
     (if raw_action_items_text \<noteq> []
         \<and> py_lower raw_action_items_text
               \<notin> set [''no action items identified.'', ''no action items found.'']
      then
        (let action_items_list =
               map py_strip
                 (filter (\<lambda>item. startswith (py_strip item) ''-'')
                    (py_split (CHR 0x0A) raw_action_items_text))
         in map (\<lambda>item. py_strip (py_lstrip ''- '' item))
              (filter (\<lambda>item. py_strip (py_lstrip ''- '' item) \<noteq> []) action_items_list))
      else if str_contains (py_lower raw_action_items_text) ''no action items identified''
              \<or> str_contains (py_lower raw_action_items_text) ''no action items found''
      then []
      else [])"

text \<open>
  The handler \<open>except RuntimeError\<close> of each of the two \<open>try\<close> blocks of
  \<open>analyze_transcript\<close>: on a RuntimeError the variable keeps its initial value; any
  other exception leaves the function.
\<close>

definition except_RuntimeError :: "exn + 'a \<Rightarrow> 'a \<Rightarrow> exn + 'a" where
  "except_RuntimeError r initial =
     (case r of
        Inr x \<Rightarrow> Inr x
      | Inl e \<Rightarrow> if exn_class_of e = RuntimeError then Inr initial else Inl e)"

text \<open>\<open>SummarizerService.analyze_transcript\<close>.\<close>

definition analyze_transcript ::
    "'w gemini_model \<Rightarrow> string \<Rightarrow> string \<Rightarrow> 'w state \<Rightarrow> (exn + analysis) \<times> 'w state" where
  "analyze_transcript model transcript filename s =
     (if transcript = [] \<or> py_strip transcript = []
      then (Inr \<lparr>summary = Some [], action_items = Some [], original_filename = Some filename\<rparr>, s)
      else
        (case generate_content_with_gemini model (summary_prompt filename transcript) s of
           (summary_raw, s1) \<Rightarrow>
             (case except_RuntimeError (try_bind summary_raw (\<lambda>t. Inr (py_strip t))) [] of
                Inl e \<Rightarrow> (Inl e, s1)
              | Inr summary_text \<Rightarrow>
                  (case generate_content_with_gemini model
                          (action_items_prompt filename transcript) s1 of
                     (raw, s2) \<Rightarrow>
                       (case except_RuntimeError
                               (try_bind raw (\<lambda>t. Inr (parse_action_items (py_strip t)))) [] of
                          Inl e \<Rightarrow> (Inl e, s2)
                        | Inr action_items_list \<Rightarrow>
                            (Inr \<lparr>summary = Some summary_text,
                                  action_items = Some action_items_list,
                                  original_filename = Some filename\<rparr>, s2))))))"

section \<open>notion\_handler.py\<close>

text \<open>
  The block helpers build the dicts sent to the Notion API; \<open>block\<close> keeps their
  shape: the kind of block, its rich text, and its \<open>color\<close> where the dict has that key.
\<close>

definition rich_text_object :: "string \<Rightarrow> string option \<Rightarrow> rich_text list" where
  "rich_text_object text_content link_url =
     [Text text_content (case link_url of None \<Rightarrow> None
                         | Some u \<Rightarrow> if u \<noteq> [] then Some u else None)]"

definition heading :: "int \<Rightarrow> string \<Rightarrow> exn + block" where
  "heading level text_content =
     (if level \<notin> set [1, 2, 3] then Inl (Exn ValueError ''Heading level must be 1, 2, or 3.'')
      else Inr (Heading level (rich_text_object text_content None) ''default''))"

text \<open>\<open>NotionHandler._paragraph\<close> (named \<open>paragraph_block\<close> here).\<close>

definition paragraph_block :: "string \<Rightarrow> string option \<Rightarrow> block" where
  "paragraph_block text_content link_url =
     (if text_content = [] then Paragraph [Text '' '' None] None
      else Paragraph (rich_text_object text_content link_url) (Some ''default''))"

definition todo_item :: "string \<Rightarrow> bool \<Rightarrow> block" where
  "todo_item text_content checked = ToDo (rich_text_object text_content None) checked ''default''"

definition bulleted_list_item :: "string \<Rightarrow> block" where
  "bulleted_list_item text_content = BulletedListItem (rich_text_object text_content None) ''default''"

text \<open>
  \<open>NotionHandler._split_text_into_chunks\<close>:
  \<^verbatim>\<open>return [text[i:i + chunk_size] for i in range(0, len(text), chunk_size)]\<close>.
  \<open>range\<close> raises ValueError for a step of zero and is empty for a negative step.
\<close>

definition split_text_into_chunks :: "string \<Rightarrow> int \<Rightarrow> exn + string list" where
  "split_text_into_chunks text chunk_size =
     (if chunk_size = 0 then Inl (Exn ValueError ''range() arg 3 must not be zero'')
      else if chunk_size < 0 then Inr []
      else Inr (map (\<lambda>i. slice text i (i + nat chunk_size))
                    (py_range_step (length text) (nat chunk_size))))"

text \<open>\<open>NotionHandler._toggle_block_with_text_content\<close>, with the default chunk size 2000.\<close>

definition toggle_block_with_text_content :: "string \<Rightarrow> string \<Rightarrow> exn + block" where
  "toggle_block_with_text_content heading_text content_text =
     try_bind (split_text_into_chunks content_text 2000) (\<lambda>chunks.
       let content_chunks = (if chunks = [] then ['' ''] else chunks);
           children_blocks = map (\<lambda>chunk. Paragraph (rich_text_object chunk None) None) content_chunks
       in Inr (Toggle (rich_text_object heading_text None) ''default'' children_blocks))"

text \<open>
  The Notion client held by a \<open>NotionHandler\<close>: its database id and \<open>pages.create\<close>,
  which returns the created page (its \<open>url\<close> key, when present), raises
  APIResponseError with a code and a body, or raises something else.
\<close>

datatype create_outcome =
    Created "string option"
  | APIResponseError string string
  | CreateRaised exn

record 'w notion_client =
  database_id :: string
  pages_create :: "page_request \<Rightarrow> 'w \<Rightarrow> create_outcome \<times> 'w"

definition page_content_blocks :: "string \<Rightarrow> string list \<Rightarrow> string \<Rightarrow> exn + block list" where
  "page_content_blocks summary_text items transcript =
     try_bind (heading 2 ''Summary'') (\<lambda>h1.
     try_bind (heading 2 ''Action Items'') (\<lambda>h2.
     try_bind (heading 2 ''Transcript'') (\<lambda>h3.
     try_bind (toggle_block_with_text_content ''Full Transcript''
                 (if transcript \<noteq> [] then transcript else ''Transcript not available.'')) (\<lambda>toggle.
       Inr ([h1, paragraph_block (if summary_text \<noteq> [] then summary_text else ''No summary generated.'') None]
            @ [h2]
            @ (if items \<noteq> [] then map (\<lambda>item. todo_item item False) items
               else [paragraph_block ''No action items identified.'' None])
            @ [h3, toggle])))))"

text \<open>
  \<open>NotionHandler.create_notion_page\<close>: the blocks are built outside the \<open>try\<close>;
  the call of \<open>pages.create\<close> is inside it and every exception becomes the returned text.
\<close>

definition create_notion_page ::
    "'w notion_client \<Rightarrow> publish_args \<Rightarrow> 'w state \<Rightarrow> (exn + string) \<times> 'w state" where
  "create_notion_page client a s =
     (let page_props = \<lparr>prop_Name = arg_title a, prop_Date = arg_date_iso a,
                        prop_Source_File = arg_source_filename a\<rparr>
      in case page_content_blocks (arg_summary a) (arg_action_items a) (arg_transcript a) of
           Inl e \<Rightarrow> (Inl e, s)
         | Inr blocks \<Rightarrow>
             (let request = \<lparr>parent_database_id = database_id client, properties = page_props,
                             children = blocks\<rparr>
              in case invoke (PagesCreateCall request) (pages_create client request) s of
                   (Created page_url, s') \<Rightarrow>
                     (Inr (case page_url of None \<Rightarrow> ''URL not found in response'' | Some u \<Rightarrow> u), s')
                 | (APIResponseError code body, s') \<Rightarrow>
                     (Inr (''Notion API Error while creating page: '' @ code @ '' - '' @ body), s')
                 | (CreateRaised e, s') \<Rightarrow>
                     (Inr (''An unexpected error occurred while creating Notion page: '' @ exn_str e), s')))"

section \<open>input\_manager.py\<close>

text \<open>
  The file system as the scanner reads it. Timestamps are an abstract type \<open>'t\<close>;
  \<open>utc_isoformat\<close> stands for \<open>datetime.fromtimestamp(t, timezone.utc).isoformat()\<close>,
  which may raise for a timestamp out of range.
\<close>

record 't stat_result =
  st_birthtime :: "'t option"
  st_mtime :: 't
  st_size :: nat

record ('w, 't) filesystem =
  is_dir :: "string \<Rightarrow> 'w \<Rightarrow> bool"
  iterdir :: "string \<Rightarrow> 'w \<Rightarrow> exn + path list"
  is_file :: "path \<Rightarrow> 'w \<Rightarrow> bool"
  stat :: "path \<Rightarrow> 'w \<Rightarrow> exn + 't stat_result"
  utc_isoformat :: "'t \<Rightarrow> exn + string"

record metadata =
  meta_filename :: string
  creation_date_iso :: string
  modification_date_iso :: string
  size_bytes :: nat

definition supported_formats :: "string list" where
  "supported_formats = [''.m4a'', ''.wav'', ''.mp3'', ''.aac'', ''.flac'', ''.ogg'', ''.opus'']"

definition get_audio_files :: "('w, 't) filesystem \<Rightarrow> string \<Rightarrow> 'w \<Rightarrow> exn + path list" where
  "get_audio_files fs folder_path_str w =
     (if \<not> is_dir fs folder_path_str w then Inr []
      else try_bind (iterdir fs folder_path_str w) (\<lambda>items.
             Inr (filter (\<lambda>item. is_file fs item w
                                  \<and> py_lower (path_suffix item) \<in> set supported_formats) items)))"

definition get_file_metadata :: "('w, 't) filesystem \<Rightarrow> path \<Rightarrow> 'w \<Rightarrow> exn + metadata" where
  "get_file_metadata fs file_path w =
     (if \<not> is_file fs file_path w
      then Inl (Exn FileNotFoundError
                 (''File not found or is not a regular file: '' @ path_str file_path))
      else try_bind (stat fs file_path w) (\<lambda>stat_info.
             let creation_timestamp =
                   (case st_birthtime stat_info of Some t \<Rightarrow> t | None \<Rightarrow> st_mtime stat_info)
             in try_bind (utc_isoformat fs creation_timestamp) (\<lambda>creation_date.
                try_bind (utc_isoformat fs (st_mtime stat_info)) (\<lambda>modification_date.
                  Inr \<lparr>meta_filename = path_name file_path,
                       creation_date_iso = creation_date,
                       modification_date_iso = modification_date,
                       size_bytes = st_size stat_info\<rparr>))))"

section \<open>orchestrator.py\<close>

text \<open>
  The three services of an \<open>Orchestrator\<close>, each one bound or \<open>None\<close>. A bound service
  is the method the orchestrator calls on it: \<open>transcribe\<close>, \<open>analyze_transcript\<close>,
  \<open>create_notion_page\<close>; each returns or raises, and may change the world.
\<close>

record 'w services =
  transcription_service :: "(path \<Rightarrow> 'w \<Rightarrow> (exn + string) \<times> 'w) option"
  summarizer_service :: "(string \<Rightarrow> string \<Rightarrow> 'w \<Rightarrow> (exn + analysis) \<times> 'w) option"
  notion_handler :: "(publish_args \<Rightarrow> 'w \<Rightarrow> (exn + string) \<times> 'w) option"

text \<open>The result dict of one file: its keys \<open>file\<close>, \<open>status\<close>, \<open>message\<close>, \<open>url\<close>.\<close>

record outcome =
  res_file :: string
  res_status :: string
  res_message :: string
  res_url :: string

text \<open>Step 2 of \<open>process_single_audio_file\<close>: summarization and analysis.\<close>

definition analysis_stage :: "'w services \<Rightarrow> path \<Rightarrow> string \<Rightarrow> 'w state \<Rightarrow> analysis \<times> 'w state" where
  "analysis_stage sv audio_path transcript_text s =
     (let summary_data = \<lparr>summary = Some [], action_items = Some [], original_filename = None\<rparr>
      in case summarizer_service sv of
           None \<Rightarrow> (summary_data, s)
         | Some analyze \<Rightarrow>
             (case invoke (AnalyzeCall transcript_text (path_name audio_path))
                     (analyze transcript_text (path_name audio_path)) s of
                (Inr analysed, s') \<Rightarrow> (analysed, s')
              | (Inl e, s') \<Rightarrow>
                  (summary_data\<lparr>summary := Some (''[Analysis failed: '' @ exn_str e @ '']'')\<rparr>, s')))"

text \<open>
  Step 3 of \<open>process_single_audio_file\<close>: creating the Notion page. \<open>page_args\<close> are
  the keyword arguments of the call of \<open>create_notion_page\<close>.
\<close>

definition page_args :: "path \<Rightarrow> string \<Rightarrow> string \<Rightarrow> analysis \<Rightarrow> publish_args" where
  "page_args audio_path notion_date_iso transcript_text summary_data =
     \<lparr>arg_title = path_stem audio_path,
      arg_date_iso = notion_date_iso,
      arg_summary = (case summary summary_data of
                       None \<Rightarrow> ''Summary not available.'' | Some t \<Rightarrow> t),
      arg_action_items = (case action_items summary_data of None \<Rightarrow> [] | Some l \<Rightarrow> l),
      arg_transcript = transcript_text,
      arg_source_filename = path_name audio_path\<rparr>"

definition publish_stage ::
    "'w services \<Rightarrow> path \<Rightarrow> string \<Rightarrow> string \<Rightarrow> analysis \<Rightarrow> outcome \<Rightarrow> 'w state
       \<Rightarrow> outcome \<times> 'w state" where
  "publish_stage sv audio_path notion_date_iso transcript_text summary_data result s =
     (case notion_handler sv of
        None \<Rightarrow>
          (result\<lparr>res_status := ''error'',
                  res_message := ''NotionHandler not available or failed to initialize. Cannot create page.''\<rparr>, s)
      | Some create_page \<Rightarrow>
          (let args = page_args audio_path notion_date_iso transcript_text summary_data
           in case invoke (PublishCall args) (create_page args) s of
                (Inr page_url_or_error, s') \<Rightarrow>
                  if str_contains page_url_or_error ''https://''
                  then (result\<lparr>res_status := ''success'', res_url := page_url_or_error,
                               res_message := ''Successfully processed and uploaded to Notion: ''
                                          @ page_url_or_error\<rparr>, s')
                  else (result\<lparr>res_status := ''error'',
                               res_message := ''Failed to create Notion page: '' @ page_url_or_error\<rparr>, s')
              | (Inl e, s') \<Rightarrow>
                  (result\<lparr>res_status := ''error'',
                          res_message := ''Failed to create Notion page due to unexpected error: ''
                                     @ exn_str e\<rparr>, s')))"

text \<open>\<open>Orchestrator.process_single_audio_file\<close>.\<close>

definition process_single_audio_file ::
    "'w services \<Rightarrow> path \<Rightarrow> string \<Rightarrow> 'w state \<Rightarrow> outcome \<times> 'w state" where
  "process_single_audio_file sv audio_path notion_date_iso s =
     (let result = \<lparr>res_file = path_str audio_path, res_status = ''pending'', res_message = [], res_url = []\<rparr>
      in case transcription_service sv of
           None \<Rightarrow>
             (result\<lparr>res_status := ''error'',
                     res_message := ''Transcription service not available or failed to initialize.''\<rparr>, s)
         | Some transcribe \<Rightarrow>
             (case invoke (TranscribeCall (path_str audio_path)) (transcribe audio_path) s of
                (Inl e, s1) \<Rightarrow>
                  (result\<lparr>res_status := ''error'',
                          res_message := ''Transcription failed: '' @ exn_str e\<rparr>, s1)
              | (Inr transcript_text, s1) \<Rightarrow>
                  if transcript_text = [] \<or> py_strip transcript_text = []
                  then (result\<lparr>res_status := ''error'',
                               res_message := ''Transcription resulted in empty text.''\<rparr>, s1)
                  else (case analysis_stage sv audio_path transcript_text s1 of
                          (summary_data, s2) \<Rightarrow>
                            publish_stage sv audio_path notion_date_iso transcript_text
                              summary_data result s2)))"

text \<open>
  The body of the loop of \<open>process_folder\<close>, acting on the \<open>results\<close> list: first the
  date of the page, then, in \<open>process_dated\<close>, the check of the date and the file itself.
\<close>

definition process_dated ::
    "'w services \<Rightarrow> path \<Rightarrow> string \<Rightarrow> outcome list \<times> 'w state \<Rightarrow> outcome list \<times> 'w state" where
  "process_dated sv audio_file_path notion_page_date_iso rs =
     (case rs of (results, s) \<Rightarrow>
        if notion_page_date_iso = []
        then (results @ [\<lparr>res_file = path_str audio_file_path, res_status = ''error'',
                           res_message = ''Could not determine date for Notion page.'', res_url = []\<rparr>], s)
        else (case process_single_audio_file sv audio_file_path notion_page_date_iso s of
                (file_result, s') \<Rightarrow> (results @ [file_result], s')))"

definition folder_loop_body ::
    "('w, 't) filesystem \<Rightarrow> 'w services \<Rightarrow> (string \<rightharpoonup> string) option \<Rightarrow> path
       \<Rightarrow> outcome list \<times> 'w state \<Rightarrow> outcome list \<times> 'w state" where
  "folder_loop_body fs sv date_mapping audio_file_path rs =
     (case rs of (results, s) \<Rightarrow>
        (case (case date_mapping of None \<Rightarrow> None | Some m \<Rightarrow> m (path_name audio_file_path)) of
           Some mapped \<Rightarrow> process_dated sv audio_file_path mapped (results, s)
         | None \<Rightarrow>
             (case get_file_metadata fs audio_file_path (world s) of
                Inl e \<Rightarrow>
                  if exn_class_of e = FileNotFoundError
                  then (results @ [\<lparr>res_file = path_str audio_file_path, res_status = ''error'',
                                     res_message = ''File metadata not found.'', res_url = []\<rparr>], s)
                  else (results @ [\<lparr>res_file = path_str audio_file_path, res_status = ''error'',
                                     res_message = ''Error getting metadata date: '' @ exn_str e,
                                     res_url = []\<rparr>], s)
              | Inr md \<Rightarrow>
                  (case py_split (CHR ''T'') (modification_date_iso md) of
                     [] \<Rightarrow> (results @ [\<lparr>res_file = path_str audio_file_path, res_status = ''error'',
                                         res_message = ''Error getting metadata date: list index out of range'',
                                         res_url = []\<rparr>], s)
                   | date_part # rest \<Rightarrow>
                       process_dated sv audio_file_path date_part (results, s)))))"

text \<open>\<open>Orchestrator.process_folder\<close>. An exception of the directory listing is not caught.\<close>

definition process_folder ::
    "('w, 't) filesystem \<Rightarrow> 'w services \<Rightarrow> string \<Rightarrow> (string \<rightharpoonup> string) option \<Rightarrow> 'w state
       \<Rightarrow> (exn + outcome list) \<times> 'w state" where
  "process_folder fs sv folder_path_str date_mapping s =
     (if Option.is_none (transcription_service sv) \<and> Option.is_none (notion_handler sv)
         \<and> Option.is_none (summarizer_service sv)
      then (Inr [\<lparr>res_file = [], res_status = ''error'',
                  res_message = ''All services failed to initialize.'', res_url = []\<rparr>], s)
      else (case get_audio_files fs folder_path_str (world s) of
              Inl e \<Rightarrow> (Inl e, s)
            | Inr audio_files \<Rightarrow>
                if audio_files = [] then (Inr [], s)
                else (case fold (folder_loop_body fs sv date_mapping) audio_files ([], s) of
                        (results, s') \<Rightarrow> (Inr results, s'))))"

section \<open>transcriber.py\<close>

text \<open>
  What \<open>Transcriber.process_recording\<close> touches: the three directories of the module,
  \<open>Path.exists\<close>, the ffmpeg subprocess (\<open>check=True\<close>), the Whisper model,
  \<open>write_text\<close> and \<open>shutil.move\<close>; \<open>Some e\<close> is the exception a call raises.
\<close>

record 'w transcriber_env =
  RECORDINGS_DIR :: string
  PROCESSED_DIR :: string
  TRANSCRIPTS_DIR :: string
  path_exists :: "string \<Rightarrow> 'w \<Rightarrow> bool"
  run_ffmpeg :: "string \<Rightarrow> string \<Rightarrow> 'w \<Rightarrow> exn option \<times> 'w"
  model_transcribe :: "string \<Rightarrow> 'w \<Rightarrow> (exn + string) \<times> 'w"
  write_text :: "string \<Rightarrow> string \<Rightarrow> 'w \<Rightarrow> exn option \<times> 'w"
  shutil_move :: "string \<Rightarrow> string \<Rightarrow> 'w \<Rightarrow> exn option \<times> 'w"

text \<open>
  \<open>Transcriber.process_recording\<close> returns nothing; both handlers only print, so an
  exception ends the function with the world as it is then.
\<close>

definition process_recording :: "'w transcriber_env \<Rightarrow> path \<Rightarrow> 'w state \<Rightarrow> 'w state" where
  "process_recording env video_path s =
     (let base_name = path_stem video_path;
          wav_path = joinpath (RECORDINGS_DIR env) (base_name @ ''.wav'');
          transcript_path = joinpath (TRANSCRIPTS_DIR env) (base_name @ ''_notes.txt'')
      in if path_exists env transcript_path (world s) then s
         else
           (case invoke (FfmpegCall (path_str video_path) wav_path)
                   (run_ffmpeg env (path_str video_path) wav_path) s of
              (Some e, s1) \<Rightarrow> s1
            | (None, s1) \<Rightarrow>
                (case invoke (WhisperModelCall wav_path) (model_transcribe env wav_path) s1 of
                   (Inl e, s2) \<Rightarrow> s2
                 | (Inr transcript, s2) \<Rightarrow>
                     (case invoke (WriteTextCall transcript_path transcript)
                             (write_text env transcript_path transcript) s2 of
                        (Some e, s3) \<Rightarrow> s3
                      | (None, s3) \<Rightarrow>
                          (case invoke (MoveCall (path_str video_path)
                                          (joinpath (PROCESSED_DIR env) (path_name video_path)))
                                  (shutil_move env (path_str video_path)
                                     (joinpath (PROCESSED_DIR env) (path_name video_path))) s3 of
                             (Some e, s4) \<Rightarrow> s4
                           | (None, s4) \<Rightarrow>
                               snd (invoke (MoveCall wav_path
                                              (joinpath (PROCESSED_DIR env) (base_name @ ''.wav'')))
                                      (shutil_move env wav_path
                                         (joinpath (PROCESSED_DIR env) (base_name @ ''.wav''))) s4))))))"

section \<open>Example inputs\<close>

text \<open>Two audio files of a folder \<open>in\<close>, used where a property is shown on a concrete run.\<close>

definition a_wav :: path where
  "a_wav = \<lparr>path_str = ''in/a.wav'', path_name = ''a.wav'', path_stem = ''a'',
            path_suffix = ''.wav''\<rparr>"

definition b_mp3 :: path where
  "b_mp3 = \<lparr>path_str = ''in/b.mp3'', path_name = ''b.mp3'', path_stem = ''b'',
            path_suffix = ''.mp3''\<rparr>"

text \<open>
  Services that answer the same whatever they are given: the result of \<open>transcribe\<close>,
  the result of \<open>analyze_transcript\<close> (\<open>None\<close>: no summarizer bound) and the result of
  \<open>create_notion_page\<close>.
\<close>

definition stub_services ::
    "exn + string \<Rightarrow> (exn + analysis) option \<Rightarrow> exn + string \<Rightarrow> 'w services" where
  "stub_services tr an pub =
     \<lparr>transcription_service = Some (\<lambda>p w. (tr, w)),
      summarizer_service = (case an of None \<Rightarrow> None | Some r \<Rightarrow> Some (\<lambda>t f w. (r, w))),
      notion_handler = Some (\<lambda>a w. (pub, w))\<rparr>"

text \<open>
  A folder holding the two files, both regular files last modified on 2025-06-01; the
  world of this file system holds nothing.
\<close>

definition example_fs :: "(unit, nat) filesystem" where
  "example_fs =
     \<lparr>is_dir = (\<lambda>d w. True),
      iterdir = (\<lambda>d w. Inr [a_wav, b_mp3]),
      is_file = (\<lambda>p w. True),
      stat = (\<lambda>p w. Inr \<lparr>st_birthtime = None, st_mtime = 1748772000, st_size = 1\<rparr>),
      utc_isoformat = (\<lambda>t. Inr ''2025-06-01T10:00:00+00:00'')\<rparr>"


text \<open>
  A world that is the list of the paths that exist. \<open>listing_fs\<close> is the folder \<open>in\<close>
  holding \<open>a.wav\<close>; \<open>example_transcriber_env\<close> is a recording pipeline whose ffmpeg,
  model, \<open>write_text\<close> and \<open>shutil.move\<close> succeed and create their output paths.
\<close>

definition listing_fs :: "(string list, nat) filesystem" where
  "listing_fs =
     \<lparr>is_dir = (\<lambda>d w. True),
      iterdir = (\<lambda>d w. Inr [a_wav]),
      is_file = (\<lambda>p w. path_str p \<in> set w),
      stat = (\<lambda>p w. Inr \<lparr>st_birthtime = None, st_mtime = 1748772000, st_size = 1\<rparr>),
      utc_isoformat = (\<lambda>t. Inr ''2025-06-01T10:00:00+00:00'')\<rparr>"

definition a_mp4 :: path where
  "a_mp4 = \<lparr>path_str = ''recordings/a.mp4'', path_name = ''a.mp4'', path_stem = ''a'',
            path_suffix = ''.mp4''\<rparr>"

definition example_transcriber_env :: "string list transcriber_env" where
  "example_transcriber_env =
     \<lparr>RECORDINGS_DIR = ''recordings'',
      PROCESSED_DIR = ''processed'',
      TRANSCRIPTS_DIR = ''transcripts'',
      path_exists = (\<lambda>p w. p \<in> set w),
      run_ffmpeg = (\<lambda>src dst w. (None, dst # w)),
      model_transcribe = (\<lambda>p w. (Inr ''hello'', w)),
      write_text = (\<lambda>p t w. (None, p # w)),
      shutil_move = (\<lambda>src dst w. (None, dst # removeAll src w))\<rparr>"

section \<open>Properties of the chunking of texts\<close>

lemma ceil_cover:
  assumes "0 < n" shows "(l::nat) \<le> ((l + n - 1) div n) * n"
proof -
  let ?a = "l + n - 1"
  have "?a div n * n + ?a mod n = ?a" by simp
  moreover have "?a mod n < n" using assms by simp
  ultimately show ?thesis using assms by linarith
qed

lemma ceil_less:
  assumes "0 < n" and "k < ((l::nat) + n - 1) div n" shows "k * n < l"
proof -
  let ?a = "l + n - 1"
  have "Suc k \<le> ?a div n" using assms(2) by simp
  then have "Suc k * n \<le> ?a div n * n" by (rule mult_le_mono1)
  also have "\<dots> \<le> ?a" by simp
  finally have "k * n + n \<le> l + n - 1" by simp
  then show ?thesis using assms(1) by linarith
qed

lemma concat_slices:
  "concat (map (\<lambda>i. slice xs i (i + n)) (map (\<lambda>k. k * n) [0..<m])) = take (m * n) xs"
proof (induction m)
  case 0 show ?case by simp
next
  case (Suc m)
  have "take (m * n) xs @ take n (drop (m * n) xs) = take (m * n + n) xs"
    by (simp add: take_add)
  with Suc show ?case by (simp add: slice_def add.commute)
qed

lemma chunks_concat:
  assumes "0 < n"
  shows "concat (map (\<lambda>i. slice xs i (i + n)) (py_range_step (length xs) n)) = xs"
  unfolding py_range_step_def concat_slices using ceil_cover [OF assms, of "length xs"] by simp

lemma chunk_nonempty:
  assumes "0 < n" and "c \<in> set (map (\<lambda>i. slice xs i (i + n)) (py_range_step (length xs) n))"
  shows "c \<noteq> []"
proof -
  from assms(2) obtain k where k: "k < (length xs + n - 1) div n"
    and c: "c = slice xs (k * n) (k * n + n)"
    by (auto simp: py_range_step_def)
  from ceil_less [OF assms(1) k] have "k * n < length xs" .
  then show ?thesis using assms(1) by (simp add: c slice_def)
qed

lemma chunk_le:
  "c \<in> set (map (\<lambda>i. slice xs i (i + n)) (py_range_step (length xs) n)) \<Longrightarrow> length c \<le> n"
  by (auto simp: slice_def)

lemma butlast_upt0: "butlast [0..<m] = [0..<m - 1]"
  by (cases m) simp_all

lemma chunk_full:
  assumes "0 < n"
    and "c \<in> set (butlast (map (\<lambda>i. slice xs i (i + n)) (py_range_step (length xs) n)))"
  shows "length c = n"
proof -
  let ?m = "(length xs + n - 1) div n"
  have "butlast (map (\<lambda>i. slice xs i (i + n)) (py_range_step (length xs) n))
        = map (\<lambda>k. slice xs (k * n) (k * n + n)) [0..<?m - 1]"
    by (simp add: py_range_step_def map_butlast [symmetric] butlast_upt0 comp_def)
  with assms(2) obtain k where k: "k < ?m - 1" and c: "c = slice xs (k * n) (k * n + n)"
    by auto
  from k have "Suc k < ?m" by simp
  from ceil_less [OF assms(1) this] have "k * n + n < length xs" by simp
  then show ?thesis by (simp add: c slice_def)
qed

lemma range_step_empty: "py_range_step 0 n = []"
  by (cases n) (simp_all add: py_range_step_def)

lemma split_text_into_chunks_pos:
  "0 < n \<Longrightarrow> split_text_into_chunks s n
      = Inr (map (\<lambda>i. slice s i (i + nat n)) (py_range_step (length s) (nat n)))"
  by (simp add: split_text_into_chunks_def)

text \<open>
  Claim C10. For every string \<open>s\<close> and every positive chunk size \<open>n\<close>,
  \<open>_split_text_into_chunks(s, n)\<close> returns a list whose concatenation is \<open>s\<close>;
  every chunk but the last has length exactly \<open>n\<close>; no chunk is empty; and the list is
  empty when \<open>s\<close> is.
\<close>

theorem split_text_into_chunks_lossless:
  assumes "0 < n"
  shows "\<exists>chunks. split_text_into_chunks s n = Inr chunks
           \<and> concat chunks = s
           \<and> (\<forall>c \<in> set (butlast chunks). length c = nat n)
           \<and> [] \<notin> set chunks
           \<and> (s = [] \<longrightarrow> chunks = [])"
proof -
  let ?chunks = "map (\<lambda>i. slice s i (i + nat n)) (py_range_step (length s) (nat n))"
  from assms have n: "0 < nat n" by simp
  have 1: "split_text_into_chunks s n = Inr ?chunks"
    using assms by (rule split_text_into_chunks_pos)
  have 2: "concat ?chunks = s" using n by (rule chunks_concat)
  have 3: "\<forall>c \<in> set (butlast ?chunks). length c = nat n"
    using chunk_full [OF n] by blast
  have 4: "[] \<notin> set ?chunks" using chunk_nonempty [OF n] by blast
  have 5: "s = [] \<longrightarrow> ?chunks = []" by (simp add: range_step_empty)
  from 1 2 3 4 5 show ?thesis by blast
qed

theorem split_text_into_chunks_lossless_witness:
  "(0::int) < 2
   \<and> split_text_into_chunks ''abcde'' 2 = Inr [''ab'', ''cd'', ''e'']
   \<and> (\<exists>chunks. split_text_into_chunks ''abcde'' 2 = Inr chunks
         \<and> concat chunks = ''abcde''
         \<and> (\<forall>c \<in> set (butlast chunks). length c = nat 2)
         \<and> [] \<notin> set chunks)"
proof -
  have h: "(0::int) < 2" by simp
  have e: "split_text_into_chunks ''abcde'' 2 = Inr [''ab'', ''cd'', ''e'']"
    by code_simp
  from split_text_into_chunks_lossless [OF h, of "''abcde''"] h e show ?thesis by blast
qed

section \<open>Properties of the page blocks\<close>

lemma rich_text_object_None: "rich_text_object t None = [Text t None]"
  by (simp add: rich_text_object_def)

text \<open>
  \<open>_toggle_block_with_text_content\<close> and \<open>_paragraph\<close> by themselves: the chunks of the
  text, the children of the toggle, and the single space for an empty text.
\<close>

lemma toggle_block_chunks:
  "\<exists>chunks. split_text_into_chunks content_text 2000 = Inr chunks
      \<and> concat chunks = content_text
      \<and> (\<forall>c \<in> set chunks. 0 < length c \<and> length c \<le> 2000)
      \<and> toggle_block_with_text_content heading_text content_text
          = Inr (Toggle [Text heading_text None] ''default''
                   (if content_text = [] then [Paragraph [Text '' '' None] None]
                    else map (\<lambda>chunk. Paragraph [Text chunk None] None) chunks))
      \<and> paragraph_block [] link_url = Paragraph [Text '' '' None] None"
proof -
  let ?chunks = "map (\<lambda>i. slice content_text i (i + 2000)) (py_range_step (length content_text) 2000)"
  have 1: "split_text_into_chunks content_text 2000 = Inr ?chunks"
    using split_text_into_chunks_pos [of 2000 content_text] by simp
  have 2: "concat ?chunks = content_text" by (rule chunks_concat) simp
  have 3: "\<forall>c \<in> set ?chunks. 0 < length c \<and> length c \<le> 2000"
  proof
    fix c assume c: "c \<in> set ?chunks"
    have "c \<noteq> []" by (rule chunk_nonempty [OF _ c]) simp
    moreover have "length c \<le> 2000" by (rule chunk_le [OF c])
    ultimately show "0 < length c \<and> length c \<le> 2000" by simp
  qed
  have e: "?chunks = [] \<longleftrightarrow> content_text = []"
    using 2 by (auto simp: range_step_empty)
  have 4: "toggle_block_with_text_content heading_text content_text
          = Inr (Toggle [Text heading_text None] ''default''
                   (if content_text = [] then [Paragraph [Text '' '' None] None]
                    else map (\<lambda>chunk. Paragraph [Text chunk None] None) ?chunks))"
    unfolding toggle_block_with_text_content_def 1 using e
    by (simp add: rich_text_object_None Let_def)
  have 5: "paragraph_block [] link_url = Paragraph [Text '' '' None] None"
    by (simp add: paragraph_block_def)
  from 1 2 3 4 5 show ?thesis by blast
qed

text \<open>
  In \<open>create_notion_page\<close> the toggle is built from the transcript, or from the text
  "Transcript not available." when the transcript is empty; the blocks are always built.
\<close>

lemma toggle_block_total: "\<exists>b. toggle_block_with_text_content h c = Inr b"
  by (simp add: toggle_block_with_text_content_def split_text_into_chunks_def Let_def)

lemma page_content_blocks_value:
  "\<exists>toggle. toggle_block_with_text_content ''Full Transcript''
               (if transcript \<noteq> [] then transcript else ''Transcript not available.'') = Inr toggle
     \<and> page_content_blocks sm items transcript
         = Inr ([Heading 2 [Text ''Summary'' None] ''default'',
                 paragraph_block (if sm \<noteq> [] then sm else ''No summary generated.'') None,
                 Heading 2 [Text ''Action Items'' None] ''default'']
                @ (if items \<noteq> [] then map (\<lambda>item. todo_item item False) items
                   else [paragraph_block ''No action items identified.'' None])
                @ [Heading 2 [Text ''Transcript'' None] ''default'', toggle])"
proof -
  obtain toggle where t: "toggle_block_with_text_content ''Full Transcript''
               (if transcript \<noteq> [] then transcript else ''Transcript not available.'') = Inr toggle"
    using toggle_block_total by blast
  show ?thesis
    by (rule exI [of _ toggle])
       (simp add: t page_content_blocks_def heading_def rich_text_object_None)
qed

lemma create_notion_page_returns:
  "\<exists>r s'. create_notion_page client a s = (Inr r, s')"
proof -
  obtain blocks where b: "page_content_blocks (arg_summary a) (arg_action_items a) (arg_transcript a) = Inr blocks"
    using page_content_blocks_value by blast
  show ?thesis
    by (simp add: create_notion_page_def b Let_def split: prod.split create_outcome.split)
qed

lemma placeholder_toggle:
  "toggle_block_with_text_content ''Full Transcript'' ''Transcript not available.''
   = Inr (Toggle [Text ''Full Transcript'' None] ''default''
            [Paragraph [Text ''Transcript not available.'' None] None])"
proof -
  have "[0..<(24 + 2000 - 1) div 2000] = [0]"
    by (simp add: upt_rec)
  then show ?thesis
    by (simp add: toggle_block_with_text_content_def split_text_into_chunks_def
        py_range_step_def slice_def rich_text_object_def)
qed

lemma create_notion_page_request:
  assumes "page_content_blocks (arg_summary a) (arg_action_items a) (arg_transcript a) = Inr blocks"
  shows "calls (snd (create_notion_page client a s))
         = calls s @ [PagesCreateCall
                        \<lparr>parent_database_id = database_id client,
                          properties = \<lparr>prop_Name = arg_title a, prop_Date = arg_date_iso a,
                                         prop_Source_File = arg_source_filename a\<rparr>,
                          children = blocks\<rparr>]"
  using assms
  by (simp add: create_notion_page_def invoke_def Let_def split: prod.split create_outcome.split)

lemma page_content_blocks_example:
  "page_content_blocks ''s'' [] transcript
   = try_bind (toggle_block_with_text_content ''Full Transcript''
                 (if transcript \<noteq> [] then transcript else ''Transcript not available.''))
       (\<lambda>toggle. Inr [Heading 2 [Text ''Summary'' None] ''default'',
                       Paragraph [Text ''s'' None] (Some ''default''),
                       Heading 2 [Text ''Action Items'' None] ''default'',
                       Paragraph [Text ''No action items identified.'' None] (Some ''default''),
                       Heading 2 [Text ''Transcript'' None] ''default'',
                       toggle])"
  by (simp add: page_content_blocks_def heading_def paragraph_block_def rich_text_object_def)

lemma long_transcript_chunks:
  "split_text_into_chunks (replicate 2000 (CHR ''a'') @ ''bc'') 2000
   = Inr [replicate 2000 (CHR ''a''), ''bc'']"
proof -
  have "[0..<(2002 + 2000 - 1) div 2000] = [0, Suc 0]"
    by (simp add: upt_rec)
  then show ?thesis
    by (simp add: split_text_into_chunks_def py_range_step_def slice_def)
qed

text \<open>
  Claim C9, as amended. In \<open>create_notion_page\<close> a transcript that is not empty is split
  into consecutive chunks of at most 2000 characters (none of them empty, together the
  whole transcript), and the last block sent to \<open>pages.create\<close> is the toggle "Full
  Transcript" whose children are one paragraph block for each chunk. An empty transcript
  is not rendered as a single space there: the toggle then holds the one paragraph
  "Transcript not available.". The single space is what \<open>_paragraph\<close> renders for an
  empty text, and what \<open>_toggle_block_with_text_content\<close> puts in its one paragraph when
  it is given an empty text itself.
\<close>

theorem transcript_rendering_for_publishing:
  "\<exists>chunks front.
      split_text_into_chunks transcript 2000 = Inr chunks
      \<and> concat chunks = transcript
      \<and> (\<forall>c \<in> set chunks. 0 < length c \<and> length c \<le> 2000)
      \<and> page_content_blocks sm items transcript
          = Inr (front @ [Heading 2 [Text ''Transcript'' None] ''default'',
                          Toggle [Text ''Full Transcript'' None] ''default''
                            (if transcript = []
                             then [Paragraph [Text ''Transcript not available.'' None] None]
                             else map (\<lambda>chunk. Paragraph [Text chunk None] None) chunks)])
      \<and> calls (snd (create_notion_page client
                      \<lparr>arg_title = title, arg_date_iso = date_iso, arg_summary = sm,
                        arg_action_items = items, arg_transcript = transcript,
                        arg_source_filename = source_filename\<rparr> s))
          = calls s @ [PagesCreateCall
                         \<lparr>parent_database_id = database_id client,
                           properties = \<lparr>prop_Name = title, prop_Date = date_iso,
                                          prop_Source_File = source_filename\<rparr>,
                           children =
                             front @ [Heading 2 [Text ''Transcript'' None] ''default'',
                                      Toggle [Text ''Full Transcript'' None] ''default''
                                        (if transcript = []
                                         then [Paragraph [Text ''Transcript not available.'' None] None]
                                         else map (\<lambda>chunk. Paragraph [Text chunk None] None)
                                                chunks)]\<rparr>]
      \<and> toggle_block_with_text_content heading_text transcript
          = Inr (Toggle [Text heading_text None] ''default''
                   (if transcript = [] then [Paragraph [Text '' '' None] None]
                    else map (\<lambda>chunk. Paragraph [Text chunk None] None) chunks))
      \<and> paragraph_block [] link_url = Paragraph [Text '' '' None] None"
proof -
  obtain chunks where c: "split_text_into_chunks transcript 2000 = Inr chunks"
      "concat chunks = transcript"
      "\<forall>c \<in> set chunks. 0 < length c \<and> length c \<le> 2000"
    and t: "toggle_block_with_text_content ''Full Transcript'' transcript
          = Inr (Toggle [Text ''Full Transcript'' None] ''default''
                   (if transcript = [] then [Paragraph [Text '' '' None] None]
                    else map (\<lambda>chunk. Paragraph [Text chunk None] None) chunks))"
    and p: "paragraph_block [] link_url = Paragraph [Text '' '' None] None"
    using toggle_block_chunks [of transcript "''Full Transcript''" link_url] by blast
  have h: "toggle_block_with_text_content heading_text transcript
          = Inr (Toggle [Text heading_text None] ''default''
                   (if transcript = [] then [Paragraph [Text '' '' None] None]
                    else map (\<lambda>chunk. Paragraph [Text chunk None] None) chunks))"
    using toggle_block_chunks [of transcript heading_text link_url] c(1) by auto
  let ?toggle = "Toggle [Text ''Full Transcript'' None] ''default''
                   (if transcript = []
                    then [Paragraph [Text ''Transcript not available.'' None] None]
                    else map (\<lambda>chunk. Paragraph [Text chunk None] None) chunks)"
  let ?front = "[Heading 2 [Text ''Summary'' None] ''default'',
                 paragraph_block (if sm \<noteq> [] then sm else ''No summary generated.'') None,
                 Heading 2 [Text ''Action Items'' None] ''default'']
                @ (if items \<noteq> [] then map (\<lambda>item. todo_item item False) items
                   else [paragraph_block ''No action items identified.'' None])"
  have tg: "toggle_block_with_text_content ''Full Transcript''
               (if transcript \<noteq> [] then transcript else ''Transcript not available.'')
            = Inr ?toggle"
  proof (cases "transcript = []")
    case True
    then show ?thesis by (simp add: placeholder_toggle)
  next
    case False
    with t show ?thesis by simp
  qed
  have b: "page_content_blocks sm items transcript
           = Inr (?front @ [Heading 2 [Text ''Transcript'' None] ''default'', ?toggle])"
    using page_content_blocks_value [of transcript sm items] tg by auto
  have r: "calls (snd (create_notion_page client
                      \<lparr>arg_title = title, arg_date_iso = date_iso, arg_summary = sm,
                        arg_action_items = items, arg_transcript = transcript,
                        arg_source_filename = source_filename\<rparr> s))
          = calls s @ [PagesCreateCall
                         \<lparr>parent_database_id = database_id client,
                           properties = \<lparr>prop_Name = title, prop_Date = date_iso,
                                          prop_Source_File = source_filename\<rparr>,
                           children = ?front @ [Heading 2 [Text ''Transcript'' None] ''default'',
                                                ?toggle]\<rparr>]"
    using create_notion_page_request [of "\<lparr>arg_title = title, arg_date_iso = date_iso,
        arg_summary = sm, arg_action_items = items, arg_transcript = transcript,
        arg_source_filename = source_filename\<rparr>" _ client s] b
    by simp
  from c b r h p show ?thesis by blast
qed

theorem transcript_rendering_for_publishing_witness:
  "(\<exists>front. page_content_blocks ''s'' [] (replicate 2000 (CHR ''a'') @ ''bc'')
       = Inr (front @ [Heading 2 [Text ''Transcript'' None] ''default'',
                       Toggle [Text ''Full Transcript'' None] ''default''
                         [Paragraph [Text (replicate 2000 (CHR ''a'')) None] None,
                          Paragraph [Text ''bc'' None] None]]))
   \<and> (\<exists>front. page_content_blocks ''s'' [] []
       = Inr (front @ [Heading 2 [Text ''Transcript'' None] ''default'',
                       Toggle [Text ''Full Transcript'' None] ''default''
                         [Paragraph [Text ''Transcript not available.'' None] None]]))
   \<and> toggle_block_with_text_content ''Full Transcript'' []
       = Inr (Toggle [Text ''Full Transcript'' None] ''default'' [Paragraph [Text '' '' None] None])
   \<and> paragraph_block [] None = Paragraph [Text '' '' None] None"
proof -
  let ?x = "replicate 2000 (CHR ''a'') @ ''bc''"
  obtain chunks front where a: "split_text_into_chunks ?x 2000 = Inr chunks"
    and b: "page_content_blocks ''s'' [] ?x
          = Inr (front @ [Heading 2 [Text ''Transcript'' None] ''default'',
                          Toggle [Text ''Full Transcript'' None] ''default''
                            (if ?x = []
                             then [Paragraph [Text ''Transcript not available.'' None] None]
                             else map (\<lambda>chunk. Paragraph [Text chunk None] None) chunks)])"
    using transcript_rendering_for_publishing [where transcript = ?x and sm = "''s''"
        and items = "[]"]
    by blast
  from a have c: "chunks = [replicate 2000 (CHR ''a''), ''bc'']"
    by (simp add: long_transcript_chunks)
  have 1: "\<exists>front. page_content_blocks ''s'' [] ?x
       = Inr (front @ [Heading 2 [Text ''Transcript'' None] ''default'',
                       Toggle [Text ''Full Transcript'' None] ''default''
                         [Paragraph [Text (replicate 2000 (CHR ''a'')) None] None,
                          Paragraph [Text ''bc'' None] None]])"
    using b unfolding c by auto
  obtain chunks' front' where b': "page_content_blocks ''s'' [] []
          = Inr (front' @ [Heading 2 [Text ''Transcript'' None] ''default'',
                          Toggle [Text ''Full Transcript'' None] ''default''
                            (if ([] :: string) = []
                             then [Paragraph [Text ''Transcript not available.'' None] None]
                             else map (\<lambda>chunk. Paragraph [Text chunk None] None) chunks')])"
    and t': "toggle_block_with_text_content ''Full Transcript'' []
          = Inr (Toggle [Text ''Full Transcript'' None] ''default''
                   (if ([] :: string) = [] then [Paragraph [Text '' '' None] None]
                    else map (\<lambda>chunk. Paragraph [Text chunk None] None) chunks'))"
    and p': "paragraph_block [] None = Paragraph [Text '' '' None] None"
    using transcript_rendering_for_publishing [where transcript = "[]" and sm = "''s''"
        and items = "[]" and heading_text = "''Full Transcript''" and link_url = None]
    by blast
  have 2: "\<exists>front. page_content_blocks ''s'' [] []
       = Inr (front @ [Heading 2 [Text ''Transcript'' None] ''default'',
                       Toggle [Text ''Full Transcript'' None] ''default''
                         [Paragraph [Text ''Transcript not available.'' None] None]])"
    using b' by auto
  have 3: "toggle_block_with_text_content ''Full Transcript'' []
       = Inr (Toggle [Text ''Full Transcript'' None] ''default'' [Paragraph [Text '' '' None] None])"
    using t' by simp
  from 1 2 3 p' show ?thesis by (intro conjI)
qed

theorem empty_transcript_toggle_counterexample:
  "calls (snd (create_notion_page
                 \<lparr>database_id = ''db'',
                   pages_create = (\<lambda>request w. (Created (Some ''https://www.notion.so/p1''), w))\<rparr>
                 \<lparr>arg_title = ''a'', arg_date_iso = ''2025-01-01'', arg_summary = ''s'',
                   arg_action_items = [], arg_transcript = [],
                   arg_source_filename = ''a.wav''\<rparr> \<lparr>calls = [], world = ()\<rparr>))
     = [PagesCreateCall
          \<lparr>parent_database_id = ''db'',
            properties = \<lparr>prop_Name = ''a'', prop_Date = ''2025-01-01'',
                           prop_Source_File = ''a.wav''\<rparr>,
            children =
              [Heading 2 [Text ''Summary'' None] ''default'',
               Paragraph [Text ''s'' None] (Some ''default''),
               Heading 2 [Text ''Action Items'' None] ''default'',
               Paragraph [Text ''No action items identified.'' None] (Some ''default''),
               Heading 2 [Text ''Transcript'' None] ''default'',
               Toggle [Text ''Full Transcript'' None] ''default''
                 [Paragraph [Text ''Transcript not available.'' None] None]]\<rparr>]
   \<and> [Paragraph [Text ''Transcript not available.'' None] None]
       \<noteq> [Paragraph [Text '' '' None] None]"
proof (rule conjI)
  have b: "page_content_blocks ''s'' [] []
     = Inr [Heading 2 [Text ''Summary'' None] ''default'',
            Paragraph [Text ''s'' None] (Some ''default''),
            Heading 2 [Text ''Action Items'' None] ''default'',
            Paragraph [Text ''No action items identified.'' None] (Some ''default''),
            Heading 2 [Text ''Transcript'' None] ''default'',
            Toggle [Text ''Full Transcript'' None] ''default''
              [Paragraph [Text ''Transcript not available.'' None] None]]"
    unfolding page_content_blocks_example by (simp add: placeholder_toggle)
  show "calls (snd (create_notion_page
                 \<lparr>database_id = ''db'',
                   pages_create = (\<lambda>request w. (Created (Some ''https://www.notion.so/p1''), w))\<rparr>
                 \<lparr>arg_title = ''a'', arg_date_iso = ''2025-01-01'', arg_summary = ''s'',
                   arg_action_items = [], arg_transcript = [],
                   arg_source_filename = ''a.wav''\<rparr> \<lparr>calls = [], world = ()\<rparr>))
     = [PagesCreateCall
          \<lparr>parent_database_id = ''db'',
            properties = \<lparr>prop_Name = ''a'', prop_Date = ''2025-01-01'',
                           prop_Source_File = ''a.wav''\<rparr>,
            children =
              [Heading 2 [Text ''Summary'' None] ''default'',
               Paragraph [Text ''s'' None] (Some ''default''),
               Heading 2 [Text ''Action Items'' None] ''default'',
               Paragraph [Text ''No action items identified.'' None] (Some ''default''),
               Heading 2 [Text ''Transcript'' None] ''default'',
               Toggle [Text ''Full Transcript'' None] ''default''
                 [Paragraph [Text ''Transcript not available.'' None] None]]\<rparr>]"
    by (simp add: create_notion_page_def b invoke_def)
next
  show "[Paragraph [Text ''Transcript not available.'' None] None]
       \<noteq> [Paragraph [Text '' '' None] None]"
    by simp
qed

section \<open>Properties of the summarizer service\<close>

lemma py_strip_empty_iff: "py_strip t = [] \<longleftrightarrow> (\<forall>c \<in> set t. isspace c)"
proof
  assume "py_strip t = []"
  then have "dropWhile isspace (rev (dropWhile isspace t)) = []"
    by (simp add: py_strip_def)
  then have a: "\<forall>c \<in> set (dropWhile isspace t). isspace c"
    by (simp add: dropWhile_eq_Nil_conv)
  show "\<forall>c \<in> set t. isspace c"
  proof
    fix c assume "c \<in> set t"
    then have "c \<in> set (takeWhile isspace t) \<or> c \<in> set (dropWhile isspace t)"
      using takeWhile_dropWhile_id [of isspace t] by (metis Un_iff set_append)
    then show "isspace c" using a by (auto dest: set_takeWhileD)
  qed
next
  assume "\<forall>c \<in> set t. isspace c"
  then have d: "dropWhile isspace t = []" by (simp add: dropWhile_eq_Nil_conv)
  show "py_strip t = []" unfolding py_strip_def d by simp
qed

text \<open>
  Claim C4. For every transcript that is empty or consists of whitespace only, and every
  file name, \<open>analyze_transcript\<close> returns the result with an empty summary, no action
  items and that file name; it does not raise, and the call log is unchanged: the
  language model is not invoked.
\<close>

theorem analyze_transcript_blank:
  assumes "transcript = [] \<or> (\<forall>c \<in> set transcript. isspace c)"
  shows "analyze_transcript model transcript f s
         = (Inr \<lparr>summary = Some [], action_items = Some [], original_filename = Some f\<rparr>, s)"
proof -
  from assms have "transcript = [] \<or> py_strip transcript = []"
    by (simp add: py_strip_empty_iff)
  then show ?thesis by (auto simp: analyze_transcript_def)
qed

theorem analyze_transcript_blank_witness:
  "analyze_transcript (\<lambda>prompt w. (Inl (Exn RuntimeError ''model called''), w)) [] ''f.wav''
       \<lparr>calls = [], world = ()\<rparr>
     = (Inr \<lparr>summary = Some [], action_items = Some [], original_filename = Some ''f.wav''\<rparr>,
        \<lparr>calls = [], world = ()\<rparr>)
   \<and> analyze_transcript (\<lambda>prompt w. (Inl (Exn RuntimeError ''model called''), w))
       [CHR 0x20, CHR 0x0A, CHR 0x09] ''f.wav'' \<lparr>calls = [], world = ()\<rparr>
     = (Inr \<lparr>summary = Some [], action_items = Some [], original_filename = Some ''f.wav''\<rparr>,
        \<lparr>calls = [], world = ()\<rparr>)"
proof (rule conjI)
  show "analyze_transcript (\<lambda>prompt w. (Inl (Exn RuntimeError ''model called''), w)) [] ''f.wav''
       \<lparr>calls = [], world = ()\<rparr>
     = (Inr \<lparr>summary = Some [], action_items = Some [], original_filename = Some ''f.wav''\<rparr>,
        \<lparr>calls = [], world = ()\<rparr>)"
    by (rule analyze_transcript_blank) simp
next
  have "[CHR 0x20, CHR 0x0A, CHR 0x09] = [] \<or> (\<forall>c \<in> set [CHR 0x20, CHR 0x0A, CHR 0x09]. isspace c)"
    by (simp add: isspace_def)
  then show "analyze_transcript (\<lambda>prompt w. (Inl (Exn RuntimeError ''model called''), w))
       [CHR 0x20, CHR 0x0A, CHR 0x09] ''f.wav'' \<lparr>calls = [], world = ()\<rparr>
     = (Inr \<lparr>summary = Some [], action_items = Some [], original_filename = Some ''f.wav''\<rparr>,
        \<lparr>calls = [], world = ()\<rparr>)"
    by (rule analyze_transcript_blank)
qed

text \<open>
  A transcript that is not blank reaches the language model: the first entry added to
  the call log is the call with the summary prompt.
\<close>

lemma generate_content_with_gemini_calls:
  "calls (snd (generate_content_with_gemini model prompt s)) = calls s @ [GenerateContentCall prompt]"
  by (simp add: generate_content_with_gemini_def invoke_def
      split: prod.split sum.split)

lemma analyze_transcript_not_blank_calls:
  assumes "py_strip transcript \<noteq> []"
  shows "\<exists>rest. calls (snd (analyze_transcript model transcript f s))
           = calls s @ GenerateContentCall (summary_prompt f transcript) # rest"
proof -
  from assms have t: "transcript \<noteq> []" by (auto simp: py_strip_def)
  obtain r sa where g: "generate_content_with_gemini model (summary_prompt f transcript) s = (r, sa)"
    by (cases "generate_content_with_gemini model (summary_prompt f transcript) s")
  have c1: "calls sa = calls s @ [GenerateContentCall (summary_prompt f transcript)]"
    using generate_content_with_gemini_calls [of model "summary_prompt f transcript" s] g by simp
  obtain r' sb where g': "generate_content_with_gemini model (action_items_prompt f transcript) sa = (r', sb)"
    by (cases "generate_content_with_gemini model (action_items_prompt f transcript) sa")
  have c2: "calls sb = calls sa @ [GenerateContentCall (action_items_prompt f transcript)]"
    using generate_content_with_gemini_calls [of model "action_items_prompt f transcript" sa] g'
    by simp
  show ?thesis
    using assms t g g' c1 c2
    by (auto simp: analyze_transcript_def split: sum.split)
qed

text \<open>The parser of the action items, in general: what it returns and from which lines.\<close>

lemma parse_action_items_nonblank: "[] \<notin> set (parse_action_items raw)"
  by (auto simp: parse_action_items_def Let_def)

lemma parse_action_items_from_bullets:
  "set (parse_action_items raw)
     \<subseteq> (\<lambda>l. py_strip (py_lstrip ''- '' (py_strip l)))
          ` {l \<in> set (py_split (CHR 0x0A) raw). startswith (py_strip l) ''-''}"
  by (auto simp: parse_action_items_def Let_def)

text \<open>
  Claim C3, as amended. A line is kept when, stripped, it begins with \<open>-\<close>, whatever
  follows: the raw text of the claim, whose middle line is "- no bullet here", gives three
  items. With a middle line that has no bullet marker ("no bullet here") the parser
  returns exactly "Follow up with Bob" and "Send report". The prefix of \<open>-\<close> and spaces
  is stripped, no returned item is blank, and "No action items identified." gives the
  empty list.
\<close>

theorem parse_action_items_bullets:
  "parse_action_items (''- Follow up with Bob'' @ [CHR 0x0A] @ ''- no bullet here''
                       @ [CHR 0x0A] @ ''- Send report'')
     = [''Follow up with Bob'', ''no bullet here'', ''Send report'']
   \<and> parse_action_items (''- Follow up with Bob'' @ [CHR 0x0A] @ ''no bullet here''
                         @ [CHR 0x0A] @ ''- Send report'')
     = [''Follow up with Bob'', ''Send report'']
   \<and> parse_action_items ''No action items identified.'' = []
   \<and> [] \<notin> set (parse_action_items raw)
   \<and> set (parse_action_items raw)
       \<subseteq> (\<lambda>l. py_strip (py_lstrip ''- '' (py_strip l)))
            ` {l \<in> set (py_split (CHR 0x0A) raw). startswith (py_strip l) ''-''}"
proof (intro conjI)
  show "parse_action_items (''- Follow up with Bob'' @ [CHR 0x0A] @ ''- no bullet here''
                       @ [CHR 0x0A] @ ''- Send report'')
     = [''Follow up with Bob'', ''no bullet here'', ''Send report'']"
    by code_simp
  show "parse_action_items (''- Follow up with Bob'' @ [CHR 0x0A] @ ''no bullet here''
                         @ [CHR 0x0A] @ ''- Send report'')
     = [''Follow up with Bob'', ''Send report'']"
    by code_simp
  show "parse_action_items ''No action items identified.'' = []"
    by code_simp
  show "[] \<notin> set (parse_action_items raw)"
    by (rule parse_action_items_nonblank)
  show "set (parse_action_items raw)
       \<subseteq> (\<lambda>l. py_strip (py_lstrip ''- '' (py_strip l)))
            ` {l \<in> set (py_split (CHR 0x0A) raw). startswith (py_strip l) ''-''}"
    by (rule parse_action_items_from_bullets)
qed

theorem parse_action_items_claimed_example_counterexample:
  "parse_action_items (''- Follow up with Bob'' @ [CHR 0x0A] @ ''- no bullet here''
                       @ [CHR 0x0A] @ ''- Send report'')
     \<noteq> [''Follow up with Bob'', ''Send report'']"
  by code_simp

section \<open>Properties of the orchestrator: one file\<close>

lemma invoke_eq:
  "f (world s) = (r, w') \<Longrightarrow> invoke ev f s = (r, \<lparr>calls = calls s @ [ev], world = w'\<rparr>)"
  by (simp add: invoke_def)

lemma py_strip_nonempty: "py_strip t \<noteq> [] \<Longrightarrow> t \<noteq> []"
  by (auto simp: py_strip_def)

text \<open>A file whose transcription gives text that is not blank goes on to steps 2 and 3.\<close>

lemma process_single_transcribed:
  assumes "transcription_service sv = Some transcribe"
    and "transcribe p (world s) = (Inr t, wt)"
    and "py_strip t \<noteq> []"
    and "analysis_stage sv p t \<lparr>calls = calls s @ [TranscribeCall (path_str p)], world = wt\<rparr> = (sd, sa)"
  shows "process_single_audio_file sv p d s
         = publish_stage sv p d t sd
             \<lparr>res_file = path_str p, res_status = ''pending'', res_message = [], res_url = []\<rparr> sa"
  using assms py_strip_nonempty [OF assms(3)]
  by (simp add: process_single_audio_file_def invoke_eq)

lemma publish_stage_bound:
  assumes "notion_handler sv = Some create_page"
    and "create_page (page_args p d t sd) (world s) = (r, w')"
  shows "publish_stage sv p d t sd result s
         = ((case r of
               Inr u \<Rightarrow>
                 if str_contains u ''https://''
                 then result\<lparr>res_status := ''success'', res_url := u,
                        res_message := ''Successfully processed and uploaded to Notion: '' @ u\<rparr>
                 else result\<lparr>res_status := ''error'',
                        res_message := ''Failed to create Notion page: '' @ u\<rparr>
             | Inl e \<Rightarrow>
                 result\<lparr>res_status := ''error'',
                   res_message := ''Failed to create Notion page due to unexpected error: '' @ exn_str e\<rparr>),
            \<lparr>calls = calls s @ [PublishCall (page_args p d t sd)], world = w'\<rparr>)"
  using assms by (simp add: publish_stage_def invoke_eq split: sum.split)

lemma analysis_stage_unbound:
  "summarizer_service sv = None \<Longrightarrow>
   analysis_stage sv p t s
     = (\<lparr>summary = Some [], action_items = Some [], original_filename = None\<rparr>, s)"
  by (simp add: analysis_stage_def)

lemma analysis_stage_raises:
  assumes "summarizer_service sv = Some analyze"
    and "analyze t (path_name p) (world s) = (Inl e, w')"
  shows "analysis_stage sv p t s
     = (\<lparr>summary = Some (''[Analysis failed: '' @ exn_str e @ '']''), action_items = Some [],
         original_filename = None\<rparr>,
        \<lparr>calls = calls s @ [AnalyzeCall t (path_name p)], world = w'\<rparr>)"
  using assms by (simp add: analysis_stage_def invoke_eq)

text \<open>
  Claim C6. With no transcription service bound, \<open>process_single_audio_file\<close> returns
  the outcome with status "error" and the message "Transcription service not available or
  failed to initialize."; the call log and the world are unchanged, so neither the analysis
  nor the publishing service is called.
\<close>

theorem no_transcription_service:
  assumes "transcription_service sv = None"
  shows "process_single_audio_file sv p d s
         = (\<lparr>res_file = path_str p, res_status = ''error'',
             res_message = ''Transcription service not available or failed to initialize.'',
             res_url = []\<rparr>, s)"
  using assms by (simp add: process_single_audio_file_def)

theorem no_transcription_service_witness:
  "process_single_audio_file
     \<lparr>transcription_service = None,
       summarizer_service = Some (\<lambda>t f w. (Inr \<lparr>summary = Some ''s'', action_items = Some [],
                                               original_filename = Some f\<rparr>, w)),
       notion_handler = Some (\<lambda>a w. (Inr ''https://notion.so/page'', w))\<rparr>
     a_wav ''2025-01-01'' \<lparr>calls = [], world = ()\<rparr>
   = (\<lparr>res_file = path_str a_wav, res_status = ''error'',
       res_message = ''Transcription service not available or failed to initialize.'',
       res_url = []\<rparr>, \<lparr>calls = [], world = ()\<rparr>)"
  by (rule no_transcription_service) simp

text \<open>
  Claim C5, as amended. When the item reaches publishing and \<open>create_notion_page\<close>
  returns a string containing "https://", the outcome has status "success" and that string
  as its URL; when it returns any other string, the outcome has status "error" and the
  message "Failed to create Notion page: " followed by that string; when it raises, the
  outcome has status "error" and the message "Failed to create Notion page due to
  unexpected error: " followed by the text of the exception. In each case the function
  returns an outcome.
\<close>

theorem publish_reference_check:
  assumes "transcription_service sv = Some transcribe"
    and "transcribe p (world s) = (Inr t, wt)"
    and "py_strip t \<noteq> []"
    and "analysis_stage sv p t \<lparr>calls = calls s @ [TranscribeCall (path_str p)], world = wt\<rparr> = (sd, sa)"
    and "notion_handler sv = Some create_page"
    and "create_page (page_args p d t sd) (world sa) = (r, wp)"
  shows "process_single_audio_file sv p d s
         = ((case r of
               Inr u \<Rightarrow>
                 if str_contains u ''https://''
                 then \<lparr>res_file = path_str p, res_status = ''success'',
                       res_message = ''Successfully processed and uploaded to Notion: '' @ u,
                       res_url = u\<rparr>
                 else \<lparr>res_file = path_str p, res_status = ''error'',
                       res_message = ''Failed to create Notion page: '' @ u, res_url = []\<rparr>
             | Inl e \<Rightarrow>
                 \<lparr>res_file = path_str p, res_status = ''error'',
                  res_message = ''Failed to create Notion page due to unexpected error: '' @ exn_str e,
                  res_url = []\<rparr>),
            \<lparr>calls = calls sa @ [PublishCall (page_args p d t sd)], world = wp\<rparr>)"
  unfolding process_single_transcribed [OF assms(1-4)] publish_stage_bound [OF assms(5,6)]
  by (simp split: sum.split)
theorem publish_reference_check_witness:
  "process_single_audio_file (stub_services (Inr ''hello'') None (Inr ''https://www.notion.so/p1''))
       a_wav ''2025-01-01'' \<lparr>calls = [], world = ()\<rparr>
     = (\<lparr>res_file = ''in/a.wav'', res_status = ''success'',
         res_message = ''Successfully processed and uploaded to Notion: https://www.notion.so/p1'',
         res_url = ''https://www.notion.so/p1''\<rparr>,
        \<lparr>calls = [TranscribeCall ''in/a.wav'',
                   PublishCall \<lparr>arg_title = ''a'', arg_date_iso = ''2025-01-01'', arg_summary = [],
                                arg_action_items = [], arg_transcript = ''hello'',
                                arg_source_filename = ''a.wav''\<rparr>],
          world = ()\<rparr>)
   \<and> fst (process_single_audio_file (stub_services (Inr ''hello'') None (Inr ''boom''))
            a_wav ''2025-01-01'' \<lparr>calls = [], world = ()\<rparr>)
     = \<lparr>res_file = ''in/a.wav'', res_status = ''error'',
        res_message = ''Failed to create Notion page: boom'', res_url = []\<rparr>
   \<and> fst (process_single_audio_file
            (stub_services (Inr ''hello'') None (Inl (Exn OtherException ''no network'')))
            a_wav ''2025-01-01'' \<lparr>calls = [], world = ()\<rparr>)
     = \<lparr>res_file = ''in/a.wav'', res_status = ''error'',
        res_message = ''Failed to create Notion page due to unexpected error: no network'',
        res_url = []\<rparr>"
proof -
  let ?s0 = "\<lparr>calls = [], world = ()\<rparr>"
  let ?sd = "\<lparr>summary = Some [], action_items = Some [], original_filename = None\<rparr>"
  let ?s2 = "\<lparr>calls = calls ?s0 @ [TranscribeCall (path_str a_wav)], world = ()\<rparr>"
  have nb: "py_strip ''hello'' \<noteq> []" by (simp add: py_strip_def isspace_def)
  have run: "process_single_audio_file (stub_services (Inr ''hello'') None r) a_wav ''2025-01-01'' ?s0
      = ((case r of
               Inr u \<Rightarrow>
                 if str_contains u ''https://''
                 then \<lparr>res_file = path_str a_wav, res_status = ''success'',
                       res_message = ''Successfully processed and uploaded to Notion: '' @ u,
                       res_url = u\<rparr>
                 else \<lparr>res_file = path_str a_wav, res_status = ''error'',
                       res_message = ''Failed to create Notion page: '' @ u, res_url = []\<rparr>
             | Inl e \<Rightarrow>
                 \<lparr>res_file = path_str a_wav, res_status = ''error'',
                  res_message = ''Failed to create Notion page due to unexpected error: '' @ exn_str e,
                  res_url = []\<rparr>),
            \<lparr>calls = calls ?s2 @ [PublishCall (page_args a_wav ''2025-01-01'' ''hello'' ?sd)], world = ()\<rparr>)"
    for r
    by (rule publish_reference_check [where transcribe = "\<lambda>p w. (Inr ''hello'', w)" and wt = "()"
          and create_page = "\<lambda>a w. (r, w)", OF _ _ nb])
       (simp_all add: stub_services_def analysis_stage_def)
  show ?thesis unfolding run
    by (simp add: a_wav_def page_args_def startswith_def)
qed

theorem publish_error_message_counterexample:
  "res_status (fst (process_single_audio_file (stub_services (Inr ''hello'') None (Inr ''boom''))
                     a_wav ''2025-01-01'' \<lparr>calls = [], world = ()\<rparr>)) = ''error''
   \<and> res_message (fst (process_single_audio_file (stub_services (Inr ''hello'') None (Inr ''boom''))
                        a_wav ''2025-01-01'' \<lparr>calls = [], world = ()\<rparr>)) \<noteq> ''boom''"
  by (simp add: process_single_audio_file_def stub_services_def invoke_def py_strip_def
      isspace_def analysis_stage_def publish_stage_def page_args_def startswith_def a_wav_def)

text \<open>
  The check reads the returned text only. With \<open>create_notion_page\<close> of
  \<open>NotionHandler\<close> as the handler, an error of the Notion API comes back as text, and a
  body that holds "https://" makes the outcome a success.
\<close>

lemma api_error_text_with_url:
  "fst (process_single_audio_file
          \<lparr>transcription_service = Some (\<lambda>p w. (Inr ''hello'', w)),
            summarizer_service = None,
            notion_handler =
              Some (create_notion_page
                      \<lparr>database_id = ''db'',
                        pages_create = (\<lambda>request w.
                          (APIResponseError ''validation_error''
                             ''see https://developers.notion.com'', w))\<rparr>)\<rparr>
          a_wav ''2025-01-01'' \<lparr>calls = [], world = \<lparr>calls = [], world = ()\<rparr>\<rparr>)
   = \<lparr>res_file = ''in/a.wav'', res_status = ''success'',
      res_message = ''Successfully processed and uploaded to Notion: Notion API Error while creating page: validation_error - see https://developers.notion.com'',
      res_url = ''Notion API Error while creating page: validation_error - see https://developers.notion.com''\<rparr>"
proof -
  obtain blocks where b: "page_content_blocks [] [] ''hello'' = Inr blocks"
    using page_content_blocks_value by blast
  have h: "py_strip ''hello'' = ''hello''"
    by (simp add: py_strip_def isspace_def)
  show ?thesis
    by (simp add: process_single_audio_file_def invoke_def h analysis_stage_def
        publish_stage_def page_args_def create_notion_page_def b a_wav_def startswith_def)
qed

text \<open>
  Claim C7. Let the transcription give text that is not blank. If no summarizer is bound,
  or if the summarizer raises, the file is not failed for it: \<open>create_notion_page\<close> is
  called, with a blank summary and no action items in the first case, and with the summary
  "[Analysis failed: ...]" holding the text of the exception and no action items in the
  second; the outcome is decided by what publishing returns, and is a success when that
  contains "https://".
\<close>

theorem analysis_problem_still_publishes:
  assumes "transcription_service sv = Some transcribe"
    and "transcribe p (world s) = (Inr t, wt)"
    and "py_strip t \<noteq> []"
    and "(summarizer_service sv = None
            \<and> sd = \<lparr>summary = Some [], action_items = Some [], original_filename = None\<rparr>
            \<and> cs = [] \<and> wa = wt)
         \<or> (\<exists>analyze e. summarizer_service sv = Some analyze
               \<and> analyze t (path_name p) wt = (Inl e, wa)
               \<and> sd = \<lparr>summary = Some (''[Analysis failed: '' @ exn_str e @ '']''),
                        action_items = Some [], original_filename = None\<rparr>
               \<and> cs = [AnalyzeCall t (path_name p)])"
    and "notion_handler sv = Some create_page"
    and "create_page (page_args p d t sd) wa = (r, wp)"
  shows "process_single_audio_file sv p d s
         = ((case r of
               Inr u \<Rightarrow>
                 if str_contains u ''https://''
                 then \<lparr>res_file = path_str p, res_status = ''success'',
                       res_message = ''Successfully processed and uploaded to Notion: '' @ u,
                       res_url = u\<rparr>
                 else \<lparr>res_file = path_str p, res_status = ''error'',
                       res_message = ''Failed to create Notion page: '' @ u, res_url = []\<rparr>
             | Inl e \<Rightarrow>
                 \<lparr>res_file = path_str p, res_status = ''error'',
                  res_message = ''Failed to create Notion page due to unexpected error: '' @ exn_str e,
                  res_url = []\<rparr>),
            \<lparr>calls = calls s @ [TranscribeCall (path_str p)] @ cs @ [PublishCall (page_args p d t sd)],
             world = wp\<rparr>)"
proof -
  let ?s1 = "\<lparr>calls = calls s @ [TranscribeCall (path_str p)], world = wt\<rparr>"
  let ?s2 = "\<lparr>calls = calls s @ [TranscribeCall (path_str p)] @ cs, world = wa\<rparr>"
  have an: "analysis_stage sv p t ?s1 = (sd, ?s2)"
    using assms(4)
  proof
    assume "summarizer_service sv = None
            \<and> sd = \<lparr>summary = Some [], action_items = Some [], original_filename = None\<rparr>
            \<and> cs = [] \<and> wa = wt"
    then show ?thesis by (simp add: analysis_stage_unbound)
  next
    assume "\<exists>analyze e. summarizer_service sv = Some analyze
               \<and> analyze t (path_name p) wt = (Inl e, wa)
               \<and> sd = \<lparr>summary = Some (''[Analysis failed: '' @ exn_str e @ '']''),
                        action_items = Some [], original_filename = None\<rparr>
               \<and> cs = [AnalyzeCall t (path_name p)]"
    then obtain analyze e where a: "summarizer_service sv = Some analyze"
      and b: "analyze t (path_name p) (world ?s1) = (Inl e, wa)"
      and c: "sd = \<lparr>summary = Some (''[Analysis failed: '' @ exn_str e @ '']''),
                        action_items = Some [], original_filename = None\<rparr>"
      and d: "cs = [AnalyzeCall t (path_name p)]"
      by auto
    show ?thesis unfolding analysis_stage_raises [OF a b] by (simp add: c d)
  qed
  have cp: "create_page (page_args p d t sd) (world ?s2) = (r, wp)"
    using assms(6) by simp
  show ?thesis
    unfolding process_single_transcribed [OF assms(1-3) an] publish_stage_bound [OF assms(5) cp]
    by (simp split: sum.split)
qed

theorem analysis_problem_still_publishes_witness:
  "process_single_audio_file
       (stub_services (Inr ''hello'') (Some (Inl (Exn RuntimeError ''quota exceeded'')))
          (Inr ''https://www.notion.so/p1''))
       a_wav ''2025-01-01'' \<lparr>calls = [], world = ()\<rparr>
     = (\<lparr>res_file = ''in/a.wav'', res_status = ''success'',
         res_message = ''Successfully processed and uploaded to Notion: https://www.notion.so/p1'',
         res_url = ''https://www.notion.so/p1''\<rparr>,
        \<lparr>calls = [TranscribeCall ''in/a.wav'', AnalyzeCall ''hello'' ''a.wav'',
                   PublishCall \<lparr>arg_title = ''a'', arg_date_iso = ''2025-01-01'',
                                arg_summary = ''[Analysis failed: quota exceeded]'',
                                arg_action_items = [], arg_transcript = ''hello'',
                                arg_source_filename = ''a.wav''\<rparr>],
          world = ()\<rparr>)
   \<and> process_single_audio_file
       (stub_services (Inr ''hello'') None (Inr ''https://www.notion.so/p1''))
       a_wav ''2025-01-01'' \<lparr>calls = [], world = ()\<rparr>
     = (\<lparr>res_file = ''in/a.wav'', res_status = ''success'',
         res_message = ''Successfully processed and uploaded to Notion: https://www.notion.so/p1'',
         res_url = ''https://www.notion.so/p1''\<rparr>,
        \<lparr>calls = [TranscribeCall ''in/a.wav'',
                   PublishCall \<lparr>arg_title = ''a'', arg_date_iso = ''2025-01-01'', arg_summary = [],
                                arg_action_items = [], arg_transcript = ''hello'',
                                arg_source_filename = ''a.wav''\<rparr>],
          world = ()\<rparr>)"
proof -
  let ?s0 = "\<lparr>calls = [], world = ()\<rparr>"
  let ?u = "''https://www.notion.so/p1''"
  let ?e = "Exn RuntimeError ''quota exceeded''"
  let ?failed = "\<lparr>summary = Some (''[Analysis failed: '' @ exn_str ?e @ '']''),
                   action_items = Some [], original_filename = None\<rparr>"
  let ?blank = "\<lparr>summary = Some [], action_items = Some [], original_filename = None\<rparr>"
  have nb: "py_strip ''hello'' \<noteq> []" by (simp add: py_strip_def isspace_def)
  have run1: "process_single_audio_file (stub_services (Inr ''hello'') (Some (Inl ?e)) (Inr ?u))
        a_wav ''2025-01-01'' ?s0
      = ((case Inr ?u of
               Inr u \<Rightarrow>
                 if str_contains u ''https://''
                 then \<lparr>res_file = path_str a_wav, res_status = ''success'',
                       res_message = ''Successfully processed and uploaded to Notion: '' @ u,
                       res_url = u\<rparr>
                 else \<lparr>res_file = path_str a_wav, res_status = ''error'',
                       res_message = ''Failed to create Notion page: '' @ u, res_url = []\<rparr>
             | Inl e \<Rightarrow>
                 \<lparr>res_file = path_str a_wav, res_status = ''error'',
                  res_message = ''Failed to create Notion page due to unexpected error: '' @ exn_str e,
                  res_url = []\<rparr>),
            \<lparr>calls = calls ?s0 @ [TranscribeCall (path_str a_wav)] @ [AnalyzeCall ''hello'' (path_name a_wav)]
                     @ [PublishCall (page_args a_wav ''2025-01-01'' ''hello'' ?failed)],
             world = ()\<rparr>)"
    by (rule analysis_problem_still_publishes [where transcribe = "\<lambda>p w. (Inr ''hello'', w)"
          and wt = "()" and wa = "()" and create_page = "\<lambda>a w. (Inr ?u, w)", OF _ _ nb])
       (simp_all add: stub_services_def)
  have run2: "process_single_audio_file (stub_services (Inr ''hello'') None (Inr ?u))
        a_wav ''2025-01-01'' ?s0
      = ((case Inr ?u of
               Inr u \<Rightarrow>
                 if str_contains u ''https://''
                 then \<lparr>res_file = path_str a_wav, res_status = ''success'',
                       res_message = ''Successfully processed and uploaded to Notion: '' @ u,
                       res_url = u\<rparr>
                 else \<lparr>res_file = path_str a_wav, res_status = ''error'',
                       res_message = ''Failed to create Notion page: '' @ u, res_url = []\<rparr>
             | Inl e \<Rightarrow>
                 \<lparr>res_file = path_str a_wav, res_status = ''error'',
                  res_message = ''Failed to create Notion page due to unexpected error: '' @ exn_str e,
                  res_url = []\<rparr>),
            \<lparr>calls = calls ?s0 @ [TranscribeCall (path_str a_wav)] @ []
                     @ [PublishCall (page_args a_wav ''2025-01-01'' ''hello'' ?blank)],
             world = ()\<rparr>)"
    by (rule analysis_problem_still_publishes [where transcribe = "\<lambda>p w. (Inr ''hello'', w)"
          and wt = "()" and wa = "()" and create_page = "\<lambda>a w. (Inr ?u, w)", OF _ _ nb])
       (simp_all add: stub_services_def)
  show ?thesis unfolding run1 run2
    by (simp add: a_wav_def page_args_def startswith_def)
qed

section \<open>Properties of the orchestrator: a folder\<close>









text \<open>The run over the example folder, step by step.\<close>

lemma example_scan: "get_audio_files example_fs ''in'' () = Inr [a_wav, b_mp3]"
  by (simp add: get_audio_files_def example_fs_def a_wav_def b_mp3_def supported_formats_def
      py_lower_def lower_char_def)

lemma example_metadata:
  "get_file_metadata example_fs p ()
   = Inr \<lparr>meta_filename = path_name p, creation_date_iso = ''2025-06-01T10:00:00+00:00'',
          modification_date_iso = ''2025-06-01T10:00:00+00:00'', size_bytes = 1\<rparr>"
  by (simp add: get_file_metadata_def example_fs_def)

lemma example_date_part:
  "py_split (CHR ''T'') ''2025-06-01T10:00:00+00:00'' = [''2025-06-01'', ''10:00:00+00:00'']"
  by simp

lemma hello_not_blank: "py_strip ''hello'' = ''hello''"
  by (simp add: py_strip_def isspace_def)





lemma py_split_head: "\<exists>rest. py_split sep t = takeWhile (\<lambda>c. c \<noteq> sep) t # rest"
proof (induction t)
  case Nil
  show ?case by simp
next
  case (Cons c t)
  then obtain rest where "py_split sep t = takeWhile (\<lambda>c. c \<noteq> sep) t # rest" by blast
  then show ?case by simp
qed

lemma try_bind_Inr_iff: "try_bind x f = Inr y \<longleftrightarrow> (\<exists>a. x = Inr a \<and> f a = Inr y)"
  by (cases x) simp_all

lemma get_file_metadata_mtime:
  "get_file_metadata fs p w = Inr md \<Longrightarrow>
   \<exists>st. stat fs p w = Inr st \<and> utc_isoformat fs (st_mtime st) = Inr (modification_date_iso md)"
  by (auto simp: get_file_metadata_def Let_def try_bind_Inr_iff split: if_splits)

text \<open>
  Claim C8. For a file of the loop of \<open>process_folder\<close>: when the date mapping has an
  entry for the name of the file, the file is processed with the mapped date, whatever its
  modification date; otherwise, when the metadata can be read, it is processed with the text
  of the ISO modification date (the UTC time of \<open>st_mtime\<close>) before its first "T"; when the
  metadata cannot be read, an error outcome is appended and nothing is called for the file.
  Processing with a date that is empty appends the error outcome "Could not determine date
  for Notion page." and calls nothing; with any other date it appends the outcome of
  \<open>process_single_audio_file\<close> for that date.
\<close>

theorem publish_date_precedence:
  "(dm = Some m \<and> m (path_name p) = Some mapped \<longrightarrow>
      folder_loop_body fs sv dm p (results, s) = process_dated sv p mapped (results, s))
   \<and> ((dm = None \<or> (dm = Some m \<and> m (path_name p) = None))
        \<and> get_file_metadata fs p (world s) = Inr md \<longrightarrow>
      folder_loop_body fs sv dm p (results, s)
        = process_dated sv p (takeWhile (\<lambda>c. c \<noteq> CHR ''T'') (modification_date_iso md)) (results, s))
   \<and> ((dm = None \<or> (dm = Some m \<and> m (path_name p) = None))
        \<and> get_file_metadata fs p (world s) = Inl e \<longrightarrow>
      folder_loop_body fs sv dm p (results, s)
        = (results @ [\<lparr>res_file = path_str p, res_status = ''error'',
                        res_message = (if exn_class_of e = FileNotFoundError
                                       then ''File metadata not found.''
                                       else ''Error getting metadata date: '' @ exn_str e),
                        res_url = []\<rparr>], s))
   \<and> process_dated sv p date (results, s)
       = (if date = []
          then (results @ [\<lparr>res_file = path_str p, res_status = ''error'',
                            res_message = ''Could not determine date for Notion page.'',
                            res_url = []\<rparr>], s)
          else (results @ [fst (process_single_audio_file sv p date s)],
                snd (process_single_audio_file sv p date s)))
   \<and> (get_file_metadata fs p w = Inr md \<longrightarrow>
        (\<exists>st. stat fs p w = Inr st
           \<and> utc_isoformat fs (st_mtime st) = Inr (modification_date_iso md)))"
proof (intro conjI impI)
  assume "dm = Some m \<and> m (path_name p) = Some mapped"
  then show "folder_loop_body fs sv dm p (results, s) = process_dated sv p mapped (results, s)"
    by (simp add: folder_loop_body_def)
next
  assume a: "(dm = None \<or> (dm = Some m \<and> m (path_name p) = None))
        \<and> get_file_metadata fs p (world s) = Inr md"
  obtain rest where "py_split (CHR ''T'') (modification_date_iso md)
      = takeWhile (\<lambda>c. c \<noteq> CHR ''T'') (modification_date_iso md) # rest"
    using py_split_head by blast
  with a show "folder_loop_body fs sv dm p (results, s)
        = process_dated sv p (takeWhile (\<lambda>c. c \<noteq> CHR ''T'') (modification_date_iso md)) (results, s)"
    by (auto simp: folder_loop_body_def)
next
  assume "(dm = None \<or> (dm = Some m \<and> m (path_name p) = None))
        \<and> get_file_metadata fs p (world s) = Inl e"
  then show "folder_loop_body fs sv dm p (results, s)
        = (results @ [\<lparr>res_file = path_str p, res_status = ''error'',
                        res_message = (if exn_class_of e = FileNotFoundError
                                       then ''File metadata not found.''
                                       else ''Error getting metadata date: '' @ exn_str e),
                        res_url = []\<rparr>], s)"
    by (auto simp: folder_loop_body_def)
next
  show "process_dated sv p date (results, s)
       = (if date = []
          then (results @ [\<lparr>res_file = path_str p, res_status = ''error'',
                            res_message = ''Could not determine date for Notion page.'',
                            res_url = []\<rparr>], s)
          else (results @ [fst (process_single_audio_file sv p date s)],
                snd (process_single_audio_file sv p date s)))"
    by (simp add: process_dated_def split: prod.split)
next
  assume "get_file_metadata fs p w = Inr md"
  then show "\<exists>st. stat fs p w = Inr st
           \<and> utc_isoformat fs (st_mtime st) = Inr (modification_date_iso md)"
    by (rule get_file_metadata_mtime)
qed
theorem publish_date_precedence_witness:
  "folder_loop_body example_fs (stub_services (Inr ''hello'') None (Inr ''https://www.notion.so/p1''))
       (Some [''a.wav'' \<mapsto> ''2025-01-01'']) a_wav ([], \<lparr>calls = [], world = ()\<rparr>)
     = process_dated (stub_services (Inr ''hello'') None (Inr ''https://www.notion.so/p1''))
         a_wav ''2025-01-01'' ([], \<lparr>calls = [], world = ()\<rparr>)
   \<and> folder_loop_body example_fs (stub_services (Inr ''hello'') None (Inr ''https://www.notion.so/p1''))
       (Some [''a.wav'' \<mapsto> ''2025-01-01'']) b_mp3 ([], \<lparr>calls = [], world = ()\<rparr>)
     = process_dated (stub_services (Inr ''hello'') None (Inr ''https://www.notion.so/p1''))
         b_mp3 ''2025-06-01'' ([], \<lparr>calls = [], world = ()\<rparr>)
   \<and> calls (snd (process_folder example_fs
                    (stub_services (Inr ''hello'') None (Inr ''https://www.notion.so/p1''))
                    ''in'' (Some [''a.wav'' \<mapsto> ''2025-01-01'']) \<lparr>calls = [], world = ()\<rparr>))
     = [TranscribeCall ''in/a.wav'',
        PublishCall \<lparr>arg_title = ''a'', arg_date_iso = ''2025-01-01'', arg_summary = [],
                     arg_action_items = [], arg_transcript = ''hello'',
                     arg_source_filename = ''a.wav''\<rparr>,
        TranscribeCall ''in/b.mp3'',
        PublishCall \<lparr>arg_title = ''b'', arg_date_iso = ''2025-06-01'', arg_summary = [],
                     arg_action_items = [], arg_transcript = ''hello'',
                     arg_source_filename = ''b.mp3''\<rparr>]"
proof (intro conjI)
  let ?sv = "stub_services (Inr ''hello'') None (Inr ''https://www.notion.so/p1'')"
  let ?m = "[''a.wav'' \<mapsto> ''2025-01-01'']"
  let ?s0 = "\<lparr>calls = [], world = ()\<rparr>"
  let ?md = "\<lparr>meta_filename = path_name b_mp3, creation_date_iso = ''2025-06-01T10:00:00+00:00'',
              modification_date_iso = ''2025-06-01T10:00:00+00:00'', size_bytes = 1\<rparr>"
  have a: "Some ?m = Some ?m \<and> ?m (path_name a_wav) = Some ''2025-01-01''"
    by (simp add: a_wav_def)
  show "folder_loop_body example_fs ?sv (Some ?m) a_wav ([], ?s0)
        = process_dated ?sv a_wav ''2025-01-01'' ([], ?s0)"
    by (rule publish_date_precedence [where m = ?m and mapped = "''2025-01-01''",
          THEN conjunct1, THEN mp, OF a])
  have b: "(Some ?m = None \<or> (Some ?m = Some ?m \<and> ?m (path_name b_mp3) = None))
           \<and> get_file_metadata example_fs b_mp3 (world ?s0) = Inr ?md"
    by (simp add: b_mp3_def example_metadata)
  have "folder_loop_body example_fs ?sv (Some ?m) b_mp3 ([], ?s0)
        = process_dated ?sv b_mp3
            (takeWhile (\<lambda>c. c \<noteq> CHR ''T'') (modification_date_iso ?md)) ([], ?s0)"
    by (rule publish_date_precedence [where m = ?m and md = ?md,
          THEN conjunct2, THEN conjunct1, THEN mp, OF b])
  then show "folder_loop_body example_fs ?sv (Some ?m) b_mp3 ([], ?s0)
        = process_dated ?sv b_mp3 ''2025-06-01'' ([], ?s0)"
    by simp
  have n: "\<not> (Option.is_none (transcription_service ?sv) \<and> Option.is_none (notion_handler ?sv)
              \<and> Option.is_none (summarizer_service ?sv))"
    by (simp add: stub_services_def)
  have pa: "folder_loop_body example_fs ?sv (Some ?m) a_wav (results, \<lparr>calls = cs, world = ()\<rparr>)
      = (results @ [\<lparr>res_file = ''in/a.wav'', res_status = ''success'',
                      res_message = ''Successfully processed and uploaded to Notion: https://www.notion.so/p1'',
                      res_url = ''https://www.notion.so/p1''\<rparr>],
         \<lparr>calls = cs @ [TranscribeCall ''in/a.wav'',
                          PublishCall \<lparr>arg_title = ''a'', arg_date_iso = ''2025-01-01'', arg_summary = [],
                                       arg_action_items = [], arg_transcript = ''hello'',
                                       arg_source_filename = ''a.wav''\<rparr>],
           world = ()\<rparr>)" for results cs
    by (simp add: folder_loop_body_def process_dated_def
        process_single_audio_file_def invoke_def stub_services_def a_wav_def hello_not_blank
        analysis_stage_def publish_stage_def page_args_def startswith_def)
  have pb: "folder_loop_body example_fs ?sv (Some ?m) b_mp3 (results, \<lparr>calls = cs, world = ()\<rparr>)
      = (results @ [\<lparr>res_file = ''in/b.mp3'', res_status = ''success'',
                      res_message = ''Successfully processed and uploaded to Notion: https://www.notion.so/p1'',
                      res_url = ''https://www.notion.so/p1''\<rparr>],
         \<lparr>calls = cs @ [TranscribeCall ''in/b.mp3'',
                          PublishCall \<lparr>arg_title = ''b'', arg_date_iso = ''2025-06-01'', arg_summary = [],
                                       arg_action_items = [], arg_transcript = ''hello'',
                                       arg_source_filename = ''b.mp3''\<rparr>],
           world = ()\<rparr>)" for results cs
    by (simp add: folder_loop_body_def example_metadata example_date_part process_dated_def
        process_single_audio_file_def invoke_def stub_services_def b_mp3_def hello_not_blank
        analysis_stage_def publish_stage_def page_args_def startswith_def)
  show "calls (snd (process_folder example_fs ?sv ''in'' (Some ?m) ?s0))
     = [TranscribeCall ''in/a.wav'',
        PublishCall \<lparr>arg_title = ''a'', arg_date_iso = ''2025-01-01'', arg_summary = [],
                     arg_action_items = [], arg_transcript = ''hello'',
                     arg_source_filename = ''a.wav''\<rparr>,
        TranscribeCall ''in/b.mp3'',
        PublishCall \<lparr>arg_title = ''b'', arg_date_iso = ''2025-06-01'', arg_summary = [],
                     arg_action_items = [], arg_transcript = ''hello'',
                     arg_source_filename = ''b.mp3''\<rparr>]"
    using n by (simp add: process_folder_def example_scan pa pb)
qed

text \<open>
  With none of the three services bound, \<open>process_folder\<close> returns one outcome that
  names no file, before the folder is scanned.
\<close>

lemma process_folder_no_services:
  assumes "transcription_service sv = None" and "notion_handler sv = None"
    and "summarizer_service sv = None"
  shows "process_folder fs sv folder dm s
         = (Inr [\<lparr>res_file = [], res_status = ''error'',
                  res_message = ''All services failed to initialize.'', res_url = []\<rparr>], s)"
  using assms by (simp add: process_folder_def)

section \<open>Properties of the transcript artifact\<close>

lemma analysis_stage_calls: "\<exists>cs. calls (snd (analysis_stage sv p t s)) = calls s @ cs"
  by (simp add: analysis_stage_def invoke_def Let_def split: option.split prod.split sum.split)

lemma publish_stage_calls: "\<exists>cs. calls (snd (publish_stage sv p d t sd result s)) = calls s @ cs"
  by (simp add: publish_stage_def invoke_def Let_def split: option.split prod.split sum.split)

lemma process_single_calls_transcribe:
  assumes "transcription_service sv = Some transcribe"
  shows "\<exists>rest. calls (snd (process_single_audio_file sv p d s))
           = calls s @ TranscribeCall (path_str p) # rest"
proof -
  let ?result = "\<lparr>res_file = path_str p, res_status = ''pending'', res_message = [], res_url = []\<rparr>"
  obtain r wt where t: "transcribe p (world s) = (r, wt)"
    by (cases "transcribe p (world s)")
  let ?sa = "\<lparr>calls = calls s @ [TranscribeCall (path_str p)], world = wt\<rparr>"
  show ?thesis
  proof (cases r)
    case (Inl e)
    with assms t show ?thesis by (simp add: process_single_audio_file_def invoke_eq)
  next
    case (Inr tx)
    show ?thesis
    proof (cases "tx = [] \<or> py_strip tx = []")
      case True
      with assms t Inr show ?thesis by (auto simp: process_single_audio_file_def invoke_eq)
    next
      case False
      obtain sd sb where an: "analysis_stage sv p tx ?sa = (sd, sb)"
        by (cases "analysis_stage sv p tx ?sa")
      from analysis_stage_calls [of sv p tx ?sa] an
      obtain cs where cs: "calls sb = (calls s @ [TranscribeCall (path_str p)]) @ cs" by auto
      from publish_stage_calls [of sv p d tx sd ?result sb]
      obtain cs' where cs': "calls (snd (publish_stage sv p d tx sd ?result sb)) = calls sb @ cs'"
        by auto
      have "process_single_audio_file sv p d s = publish_stage sv p d tx sd ?result sb"
        using assms t Inr False an by (simp add: process_single_audio_file_def invoke_eq)
      with cs cs' show ?thesis by simp
    qed
  qed
qed

text \<open>
  Claim C2, as amended. \<open>Transcriber.process_recording\<close> returns at once, with the call
  log and the world unchanged, when \<open>TRANSCRIPTS_DIR/<stem>_notes.txt\<close> exists; when it
  does not exist, the first thing it does is to run ffmpeg. \<open>process_single_audio_file\<close>
  of the orchestrator reads no transcript file: whenever a transcription service is
  bound, it calls \<open>transcribe\<close> on the file, in every state.
\<close>

theorem transcript_artifact_skips_transcriber_only:
  "(path_exists env (joinpath (TRANSCRIPTS_DIR env) (path_stem v @ ''_notes.txt'')) (world s)
      \<longrightarrow> process_recording env v s = s)
   \<and> (\<not> path_exists env (joinpath (TRANSCRIPTS_DIR env) (path_stem v @ ''_notes.txt'')) (world s)
      \<longrightarrow> (\<exists>rest. calls (process_recording env v s)
                   = calls s @ FfmpegCall (path_str v)
                                 (joinpath (RECORDINGS_DIR env) (path_stem v @ ''.wav'')) # rest))
   \<and> (transcription_service sv = Some transcribe
      \<longrightarrow> (\<exists>rest. calls (snd (process_single_audio_file sv p d so))
                   = calls so @ TranscribeCall (path_str p) # rest))"
proof (intro conjI impI)
  assume "path_exists env (joinpath (TRANSCRIPTS_DIR env) (path_stem v @ ''_notes.txt'')) (world s)"
  then show "process_recording env v s = s"
    by (simp add: process_recording_def)
next
  assume "\<not> path_exists env (joinpath (TRANSCRIPTS_DIR env) (path_stem v @ ''_notes.txt'')) (world s)"
  then show "\<exists>rest. calls (process_recording env v s)
                   = calls s @ FfmpegCall (path_str v)
                                 (joinpath (RECORDINGS_DIR env) (path_stem v @ ''.wav'')) # rest"
    by (simp add: process_recording_def invoke_def Let_def
        split: prod.split option.split sum.split)
next
  assume "transcription_service sv = Some transcribe"
  then show "\<exists>rest. calls (snd (process_single_audio_file sv p d so))
                   = calls so @ TranscribeCall (path_str p) # rest"
    by (rule process_single_calls_transcribe)
qed
theorem transcript_artifact_skips_transcriber_only_witness:
  "process_recording example_transcriber_env a_mp4
       \<lparr>calls = [], world = [''transcripts/a_notes.txt'', ''recordings/a.mp4'', ''in/a.wav'']\<rparr>
     = \<lparr>calls = [], world = [''transcripts/a_notes.txt'', ''recordings/a.mp4'', ''in/a.wav'']\<rparr>
   \<and> (\<exists>rest. calls (process_recording example_transcriber_env a_mp4
                        \<lparr>calls = [], world = [''recordings/a.mp4'']\<rparr>)
          = calls \<lparr>calls = [], world = [''recordings/a.mp4'']\<rparr>
            @ FfmpegCall (path_str a_mp4)
                (joinpath (RECORDINGS_DIR example_transcriber_env) (path_stem a_mp4 @ ''.wav'')) # rest)
   \<and> (\<exists>rest. calls (snd (process_single_audio_file
                            (stub_services (Inr ''hello'') None (Inr ''https://www.notion.so/p1''))
                            a_wav ''2025-01-01''
                            \<lparr>calls = [], world = [''transcripts/a_notes.txt'', ''recordings/a.mp4'', ''in/a.wav'']\<rparr>))
          = calls \<lparr>calls = [], world = [''transcripts/a_notes.txt'', ''recordings/a.mp4'', ''in/a.wav'']\<rparr>
            @ TranscribeCall (path_str a_wav) # rest)"
proof (intro conjI)
  let ?w = "[''transcripts/a_notes.txt'', ''recordings/a.mp4'', ''in/a.wav'']"
  let ?s = "\<lparr>calls = [], world = ?w\<rparr>"
  let ?so = "\<lparr>calls = [], world = [''recordings/a.mp4'']\<rparr>"
  let ?sv = "stub_services (Inr ''hello'') None (Inr ''https://www.notion.so/p1'') :: string list services"
  have e: "path_exists example_transcriber_env
             (joinpath (TRANSCRIPTS_DIR example_transcriber_env) (path_stem a_mp4 @ ''_notes.txt''))
             (world ?s)"
    by (simp add: example_transcriber_env_def a_mp4_def joinpath_def)
  show "process_recording example_transcriber_env a_mp4 ?s = ?s"
    by (rule transcript_artifact_skips_transcriber_only [THEN conjunct1, THEN mp, OF e])
  have n: "\<not> path_exists example_transcriber_env
             (joinpath (TRANSCRIPTS_DIR example_transcriber_env) (path_stem a_mp4 @ ''_notes.txt''))
             (world ?so)"
    by (simp add: example_transcriber_env_def a_mp4_def joinpath_def)
  show "\<exists>rest. calls (process_recording example_transcriber_env a_mp4 ?so)
          = calls ?so
            @ FfmpegCall (path_str a_mp4)
                (joinpath (RECORDINGS_DIR example_transcriber_env) (path_stem a_mp4 @ ''.wav'')) # rest"
    by (rule transcript_artifact_skips_transcriber_only
          [THEN conjunct2, THEN conjunct1, THEN mp, OF n])
  have t: "transcription_service ?sv = Some (\<lambda>p w. (Inr ''hello'', w))"
    by (simp add: stub_services_def)
  show "\<exists>rest. calls (snd (process_single_audio_file ?sv a_wav ''2025-01-01'' ?s))
          = calls ?s @ TranscribeCall (path_str a_wav) # rest"
    by (rule transcript_artifact_skips_transcriber_only
          [THEN conjunct2, THEN conjunct2, THEN mp, OF t])
qed

text \<open>
  The recording pipeline run twice on the example: the second run adds nothing to the
  call log, which holds one call of the model.
\<close>

lemma process_recording_example_rerun:
  "process_recording example_transcriber_env a_mp4 \<lparr>calls = [], world = [''recordings/a.mp4'']\<rparr>
     = \<lparr>calls = [FfmpegCall ''recordings/a.mp4'' ''recordings/a.wav'',
                 WhisperModelCall ''recordings/a.wav'',
                 WriteTextCall ''transcripts/a_notes.txt'' ''hello'',
                 MoveCall ''recordings/a.mp4'' ''processed/a.mp4'',
                 MoveCall ''recordings/a.wav'' ''processed/a.wav''],
        world = [''processed/a.wav'', ''processed/a.mp4'', ''transcripts/a_notes.txt'']\<rparr>
   \<and> process_recording example_transcriber_env a_mp4
       (process_recording example_transcriber_env a_mp4 \<lparr>calls = [], world = [''recordings/a.mp4'']\<rparr>)
     = process_recording example_transcriber_env a_mp4 \<lparr>calls = [], world = [''recordings/a.mp4'']\<rparr>"
  by (simp add: process_recording_def example_transcriber_env_def a_mp4_def joinpath_def invoke_def
      Let_def)

lemma listing_run:
  assumes "''in/a.wav'' \<in> set w"
  shows "process_folder listing_fs (stub_services (Inr ''hello'') None (Inr ''https://www.notion.so/p1''))
           ''in'' None \<lparr>calls = cs, world = w\<rparr>
     = (Inr [\<lparr>res_file = ''in/a.wav'', res_status = ''success'',
              res_message = ''Successfully processed and uploaded to Notion: https://www.notion.so/p1'',
              res_url = ''https://www.notion.so/p1''\<rparr>],
        \<lparr>calls = cs @ [TranscribeCall ''in/a.wav'',
                         PublishCall \<lparr>arg_title = ''a'', arg_date_iso = ''2025-06-01'', arg_summary = [],
                                      arg_action_items = [], arg_transcript = ''hello'',
                                      arg_source_filename = ''a.wav''\<rparr>],
          world = w\<rparr>)"
proof -
  have scan: "get_audio_files listing_fs ''in'' w = Inr [a_wav]"
    using assms
    by (simp add: get_audio_files_def listing_fs_def a_wav_def supported_formats_def
        py_lower_def lower_char_def)
  have md: "get_file_metadata listing_fs a_wav w
     = Inr \<lparr>meta_filename = ''a.wav'', creation_date_iso = ''2025-06-01T10:00:00+00:00'',
            modification_date_iso = ''2025-06-01T10:00:00+00:00'', size_bytes = 1\<rparr>"
    using assms by (simp add: get_file_metadata_def listing_fs_def a_wav_def)
  have body: "folder_loop_body listing_fs
        (stub_services (Inr ''hello'') None (Inr ''https://www.notion.so/p1'')) None a_wav
        ([], \<lparr>calls = cs, world = w\<rparr>)
     = ([\<lparr>res_file = ''in/a.wav'', res_status = ''success'',
              res_message = ''Successfully processed and uploaded to Notion: https://www.notion.so/p1'',
              res_url = ''https://www.notion.so/p1''\<rparr>],
        \<lparr>calls = cs @ [TranscribeCall ''in/a.wav'',
                         PublishCall \<lparr>arg_title = ''a'', arg_date_iso = ''2025-06-01'', arg_summary = [],
                                      arg_action_items = [], arg_transcript = ''hello'',
                                      arg_source_filename = ''a.wav''\<rparr>],
          world = w\<rparr>)"
    by (simp add: folder_loop_body_def md example_date_part process_dated_def
        process_single_audio_file_def invoke_def stub_services_def hello_not_blank
        analysis_stage_def publish_stage_def page_args_def startswith_def)
       (simp add: a_wav_def)
  show ?thesis
    by (simp add: process_folder_def scan body) (simp add: stub_services_def)
qed

theorem orchestrator_retranscribes_counterexample:
  "''transcripts/a_notes.txt''
     \<in> set (world \<lparr>calls = [], world = [''transcripts/a_notes.txt'', ''in/a.wav'']\<rparr>)
   \<and> joinpath ''transcripts'' (path_stem a_wav @ ''_notes.txt'') = ''transcripts/a_notes.txt''
   \<and> calls (snd (process_folder listing_fs
                    (stub_services (Inr ''hello'') None (Inr ''https://www.notion.so/p1''))
                    ''in'' None
                    (snd (process_folder listing_fs
                            (stub_services (Inr ''hello'') None (Inr ''https://www.notion.so/p1''))
                            ''in'' None
                            \<lparr>calls = [], world = [''transcripts/a_notes.txt'', ''in/a.wav'']\<rparr>))))
     = [TranscribeCall ''in/a.wav'',
        PublishCall \<lparr>arg_title = ''a'', arg_date_iso = ''2025-06-01'', arg_summary = [],
                     arg_action_items = [], arg_transcript = ''hello'',
                     arg_source_filename = ''a.wav''\<rparr>,
        TranscribeCall ''in/a.wav'',
        PublishCall \<lparr>arg_title = ''a'', arg_date_iso = ''2025-06-01'', arg_summary = [],
                     arg_action_items = [], arg_transcript = ''hello'',
                     arg_source_filename = ''a.wav''\<rparr>]"
proof -
  have i: "''in/a.wav'' \<in> set [''transcripts/a_notes.txt'', ''in/a.wav'']" by simp
  show ?thesis
    by (simp add: listing_run [OF i] joinpath_def) (simp add: a_wav_def)
qed

end
